theory Spec2Isabelle
  imports Main "HOL-Library.Sublist"
begin

section \<open>Text\<close>

text \<open>
  A Python \<open>str\<close> is a sequence of Unicode code points, here a list of natural numbers.
  A literal of the source is written \<open>lit ''...''\<close>. On the ASCII range every character
  class is defined here; what Python's Unicode database says of the characters beyond
  ASCII is a parameter of the model, the record \<open>ucd\<close>, and every property below holds
  whatever that record says.
\<close>

type_synonym pystr = "nat list"

definition lit :: "string \<Rightarrow> pystr" where
  "lit s = map of_char s"

definition ord :: "char \<Rightarrow> nat" where
  "ord c = of_char c"

record ucd =
  ucd_decimal :: "nat \<Rightarrow> nat option"
  ucd_alnum :: "nat \<Rightarrow> bool"
  ucd_space :: "nat \<Rightarrow> bool"
  ucd_printable :: "nat \<Rightarrow> bool"
  ucd_lower :: "pystr \<Rightarrow> pystr"

text \<open>The classes \<open>[A-Z]\<close>, \<open>[a-z]\<close> and \<open>[0-9]\<close>.\<close>

definition is_upper :: "nat \<Rightarrow> bool" where
  "is_upper c = (65 \<le> c \<and> c \<le> 90)"

definition is_lower :: "nat \<Rightarrow> bool" where
  "is_lower c = (97 \<le> c \<and> c \<le> 122)"

definition is_digit :: "nat \<Rightarrow> bool" where
  "is_digit c = (48 \<le> c \<and> c \<le> 57)"

definition digit_val :: "nat \<Rightarrow> nat" where
  "digit_val c = c - 48"

definition digit_char :: "nat \<Rightarrow> nat" where
  "digit_char n = 48 + n"

text \<open>\<open>\d\<close> on a \<open>str\<close> and the value \<open>int\<close> gives the character: the ASCII digits, and
  beyond ASCII the decimal digits of the database, each with a value below ten.\<close>

definition decimal_value :: "ucd \<Rightarrow> nat \<Rightarrow> nat option" where
  "decimal_value u c =
     (if is_digit c then Some (digit_val c)
      else if c < 128 then None
      else (case ucd_decimal u c of
              None \<Rightarrow> None
            | Some v \<Rightarrow> (if v < 10 then Some v else None)))"

text \<open>\<open>\w\<close> on a \<open>str\<close>: letters, digits and the underscore, and beyond ASCII what the
  database holds alphanumeric.\<close>

definition is_word :: "ucd \<Rightarrow> nat \<Rightarrow> bool" where
  "is_word u c =
     (is_upper c \<or> is_lower c \<or> is_digit c \<or> c = ord CHR ''_''
      \<or> (128 \<le> c \<and> ucd_alnum u c))"

text \<open>\<open>str.isspace\<close>: tab, line feed, vertical tab, form feed, carriage return,
  the four separators 0x1C to 0x1F and the space, and beyond ASCII what the database
  holds to be whitespace.\<close>

definition isspace :: "ucd \<Rightarrow> nat \<Rightarrow> bool" where
  "isspace u c = (c \<in> {9, 10, 11, 12, 13, 28, 29, 30, 31, 32} \<or> (128 \<le> c \<and> ucd_space u c))"

definition lower_char :: "nat \<Rightarrow> nat" where
  "lower_char c = (if is_upper c then c + 32 else c)"

text \<open>\<open>str.lower\<close>: on ASCII text character by character; the lowering of a text with a
  character beyond ASCII is the database's.\<close>

definition lower :: "ucd \<Rightarrow> pystr \<Rightarrow> pystr" where
  "lower u s = (if list_all (\<lambda>c. c < 128) s then map lower_char s else ucd_lower u s)"

definition strip :: "ucd \<Rightarrow> pystr \<Rightarrow> pystr" where
  "strip u s = rev (dropWhile (isspace u) (rev (dropWhile (isspace u) s)))"

text \<open>\<open>sub in s\<close> on strings.\<close>

fun contains :: "pystr \<Rightarrow> pystr \<Rightarrow> bool" where
  "contains sub [] = (sub = [])"
| "contains sub (c # cs) = (prefix sub (c # cs) \<or> contains sub cs)"

text \<open>\<open>sep.join(xs)\<close>.\<close>

fun join :: "pystr \<Rightarrow> pystr list \<Rightarrow> pystr" where
  "join sep [] = []"
| "join sep [x] = x"
| "join sep (x # y # ys) = x @ sep @ join sep (y # ys)"

text \<open>\<open>s.replace(old, new)\<close> for a non-empty \<open>old\<close>: occurrences are replaced from the
  left and do not overlap. The counter is the number of characters of a replaced
  occurrence still to be skipped.\<close>

fun replace_from :: "pystr \<Rightarrow> pystr \<Rightarrow> nat \<Rightarrow> pystr \<Rightarrow> pystr" where
  "replace_from old new k [] = []"
| "replace_from old new (Suc k) (c # cs) = replace_from old new k cs"
| "replace_from old new 0 (c # cs) =
     (if prefix old (c # cs) then new @ replace_from old new (length old - 1) cs
      else c # replace_from old new 0 cs)"

definition replace :: "pystr \<Rightarrow> pystr \<Rightarrow> pystr \<Rightarrow> pystr" where
  "replace old new s = replace_from old new 0 s"

text \<open>Decimal rendering of an integer, as \<open>str\<close> and f-strings give it.\<close>

fun digits :: "nat \<Rightarrow> pystr" where
  "digits n = (if n < 10 then [digit_char n] else digits (n div 10) @ [digit_char (n mod 10)])"

declare digits.simps [simp del]

definition str_int :: "int \<Rightarrow> pystr" where
  "str_int i = (if i < 0 then ord CHR ''-'' # digits (nat (- i)) else digits (nat i))"

section \<open>JSON values and the Python operations on them\<close>

text \<open>
  What \<open>r.json()\<close> returns and what a request's \<open>context\<close> holds. Numbers are the
  integers; \<open>JNull\<close> is \<open>None\<close>. A \<open>JDict\<close> lists its items in the dictionary's order,
  each key once.
\<close>

datatype json =
    JNull
  | JBool bool
  | JInt int
  | JStr pystr
  | JList "json list"
  | JDict "(pystr \<times> json) list"

text \<open>The exceptions the handler can meet. Every one of them is a subclass of
  \<open>Exception\<close>; \<open>HTTPException\<close> carries the status code and the detail.\<close>

datatype exn =
    HTTPException nat pystr
  | AttributeError
  | TypeError
  | KeyError
  | IndexError
  | ValueError

definition and_then :: "exn + 'a \<Rightarrow> ('a \<Rightarrow> exn + 'b) \<Rightarrow> exn + 'b" where
  "and_then r f = (case r of Inl e \<Rightarrow> Inl e | Inr x \<Rightarrow> f x)"

text \<open>A comprehension whose element expression may raise: the first failure, from the
  left, ends it.\<close>

fun for_each :: "('a \<Rightarrow> exn + 'b) \<Rightarrow> 'a list \<Rightarrow> exn + 'b list" where
  "for_each f [] = Inr []"
| "for_each f (x # xs) =
     (case f x of Inl e \<Rightarrow> Inl e
      | Inr y \<Rightarrow> (case for_each f xs of Inl e \<Rightarrow> Inl e | Inr ys \<Rightarrow> Inr (y # ys)))"

text \<open>Truth value of an object in a condition.\<close>

fun truthy :: "json \<Rightarrow> bool" where
  "truthy JNull = False"
| "truthy (JBool b) = b"
| "truthy (JInt i) = (i \<noteq> 0)"
| "truthy (JStr s) = (s \<noteq> [])"
| "truthy (JList xs) = (xs \<noteq> [])"
| "truthy (JDict kvs) = (kvs \<noteq> [])"

text \<open>\<open>x[key]\<close> with a string key.\<close>

fun getitem :: "json \<Rightarrow> pystr \<Rightarrow> exn + json" where
  "getitem (JDict kvs) k = (case map_of kvs k of None \<Rightarrow> Inl KeyError | Some v \<Rightarrow> Inr v)"
| "getitem j k = Inl TypeError"

text \<open>\<open>x[0]\<close>.\<close>

fun getitem0 :: "json \<Rightarrow> exn + json" where
  "getitem0 (JList xs) = (case xs of [] \<Rightarrow> Inl IndexError | x # _ \<Rightarrow> Inr x)"
| "getitem0 (JStr s) = (case s of [] \<Rightarrow> Inl IndexError | c # _ \<Rightarrow> Inr (JStr [c]))"
| "getitem0 (JDict kvs) = Inl KeyError"
| "getitem0 j = Inl TypeError"

text \<open>\<open>x[:n]\<close>. Slicing a dictionary raises (\<open>TypeError\<close> up to Python 3.11,
  \<open>KeyError\<close> from 3.12 on).\<close>

fun slice_to :: "nat \<Rightarrow> json \<Rightarrow> exn + json" where
  "slice_to n (JList xs) = Inr (JList (take n xs))"
| "slice_to n (JStr s) = Inr (JStr (take n s))"
| "slice_to n j = Inl TypeError"

text \<open>\<open>for x in j\<close>: the elements of a list, the characters of a string, the keys of a
  dictionary.\<close>

fun iterate :: "json \<Rightarrow> exn + json list" where
  "iterate (JList xs) = Inr xs"
| "iterate (JStr s) = Inr (map (\<lambda>c. JStr [c]) s)"
| "iterate (JDict kvs) = Inr (map (\<lambda>kv. JStr (fst kv)) kvs)"
| "iterate j = Inl TypeError"

text \<open>\<open>x.get(key, default)\<close>: only a dictionary has the method.\<close>

fun dict_get :: "json \<Rightarrow> pystr \<Rightarrow> json \<Rightarrow> exn + json" where
  "dict_get (JDict kvs) k d = Inr (case map_of kvs k of None \<Rightarrow> d | Some v \<Rightarrow> v)"
| "dict_get j k d = Inl AttributeError"

fun isinstance_list :: "json \<Rightarrow> bool" where
  "isinstance_list (JList xs) = True"
| "isinstance_list j = False"

subsection \<open>Rendering in an f-string\<close>

definition hex_digit :: "nat \<Rightarrow> nat" where
  "hex_digit n = (if n < 10 then 48 + n else 87 + n)"

text \<open>The last \<open>k\<close> hexadecimal digits of a number.\<close>

fun hex :: "nat \<Rightarrow> nat \<Rightarrow> pystr" where
  "hex 0 n = []"
| "hex (Suc k) n = hex k (n div 16) @ [hex_digit (n mod 16)]"

text \<open>\<open>repr\<close> of a string: single quotes, unless the string has a single quote and no
  double quote; the quote and the backslash are escaped, and so is every character that
  is not printable: the ASCII control characters, and beyond ASCII what the database does
  not hold printable.\<close>

definition repr_char :: "ucd \<Rightarrow> nat \<Rightarrow> nat \<Rightarrow> pystr" where
  "repr_char u q c =
     (if c = q \<or> c = ord CHR 0x5C then [ord CHR 0x5C, c]
      else if c = 9 then lit [CHR 0x5C, CHR ''t'']
      else if c = 10 then lit [CHR 0x5C, CHR ''n'']
      else if c = 13 then lit [CHR 0x5C, CHR ''r'']
      else if c < 32 \<or> c = 127 then lit [CHR 0x5C, CHR ''x''] @ hex 2 c
      else if c < 128 \<or> ucd_printable u c then [c]
      else if c < 256 then lit [CHR 0x5C, CHR ''x''] @ hex 2 c
      else if c < 65536 then lit [CHR 0x5C, CHR ''u''] @ hex 4 c
      else lit [CHR 0x5C, CHR ''U''] @ hex 8 c)"

definition repr_str :: "ucd \<Rightarrow> pystr \<Rightarrow> pystr" where
  "repr_str u s =
     (let q = (if ord CHR 0x27 \<in> set s \<and> ord CHR 0x22 \<notin> set s
               then ord CHR 0x22 else ord CHR 0x27)
      in q # concat (map (repr_char u q) s) @ [q])"

fun repr :: "ucd \<Rightarrow> json \<Rightarrow> pystr"
  and repr_items :: "ucd \<Rightarrow> json list \<Rightarrow> pystr list"
  and repr_pairs :: "ucd \<Rightarrow> (pystr \<times> json) list \<Rightarrow> pystr list" where
  "repr u JNull = lit ''None''"
| "repr u (JBool b) = (if b then lit ''True'' else lit ''False'')"
| "repr u (JInt i) = str_int i"
| "repr u (JStr s) = repr_str u s"
| "repr u (JList xs) = lit ''['' @ join (lit '', '') (repr_items u xs) @ lit '']''"
| "repr u (JDict kvs) = lit ''{'' @ join (lit '', '') (repr_pairs u kvs) @ lit ''}''"
| "repr_items u [] = []"
| "repr_items u (x # xs) = repr u x # repr_items u xs"
| "repr_pairs u [] = []"
| "repr_pairs u (kv # kvs) =
     (repr_str u (fst kv) @ lit '': '' @ repr u (snd kv)) # repr_pairs u kvs"

text \<open>\<open>f"{x}"\<close>: a string as it is, anything else as its \<open>repr\<close>.\<close>

fun str :: "ucd \<Rightarrow> json \<Rightarrow> pystr" where
  "str u (JStr s) = s"
| "str u j = repr u j"

section \<open>The two remote services\<close>

text \<open>
  What a call through the HTTP library comes to: the call raises before a response
  arrives (\<open>ConnectionError\<close>, \<open>Timeout\<close>), or a response arrives with its status code
  and body. \<open>raise_for_status\<close> raises \<open>HTTPError\<close> for a status from 400 to 599 and for
  no other; \<open>json()\<close> gives the parsed body, and raises when the body does not parse
  (\<open>None\<close> here).
\<close>

datatype http_outcome =
    ConnectionError
  | Timeout
  | Response nat "json option"

definition raise_for_status :: "nat \<Rightarrow> bool" where
  "raise_for_status st = (400 \<le> st \<and> st < 600)"

type_synonym params = "(pystr \<times> json) list"

type_synonym lib_call = "pystr \<times> params option"

text \<open>Decimal literals of the request body: \<open>(m, e)\<close> is \<open>m / 10^e\<close>.\<close>

type_synonym fraction = "int \<times> nat"

record payload =
  model :: pystr
  messages :: "json list"
  temperature :: fraction
  max_tokens :: int
  top_p :: fraction
  stop :: "pystr list"

text \<open>
  The surroundings of one request: the text of the system prompt (a constant of the
  source), and what the library data service and the completion service answer to each
  call.
\<close>

record env =
  prompt_content :: pystr
  library_service :: "pystr \<Rightarrow> params option \<Rightarrow> http_outcome"
  completion_service :: "payload \<Rightarrow> http_outcome"

record ChatRequest =
  message :: pystr
  user_id :: "pystr option"
  context' :: "json list option"

definition MODEL_VERSION :: pystr where
  "MODEL_VERSION = lit ''openai/gpt-3.5-turbo-16k''"

definition SCCS_SYSTEM_PROMPT :: "env \<Rightarrow> json" where
  "SCCS_SYSTEM_PROMPT env =
     JDict [(lit ''role'', JStr (lit ''system'')), (lit ''content'', JStr (prompt_content env))]"

text \<open>Every exception inside \<open>fetch_library_data\<close> is caught there and gives \<open>None\<close>.\<close>

definition fetch_library_data :: "env \<Rightarrow> pystr \<Rightarrow> params option \<Rightarrow> json" where
  "fetch_library_data env endpoint ps =
     (case library_service env endpoint ps of
        ConnectionError \<Rightarrow> JNull
      | Timeout \<Rightarrow> JNull
      | Response st parsed \<Rightarrow>
          (if raise_for_status st then JNull
           else (case parsed of None \<Rightarrow> JNull | Some j \<Rightarrow> j)))"

definition get_campus_id :: "ucd \<Rightarrow> pystr \<Rightarrow> int" where
  "get_campus_id u msg = (if contains (lit ''siyabuswa'') (lower u msg) then 2 else 1)"

section \<open>The time formatter\<close>

text \<open>
  \<open>strptime(s, '%H:%M')\<close> matches the regular expression
  \<open>(2[0-3]|[0-1]\d|\d):([0-5]\d|\d)\<close> at the start of \<open>s\<close> and raises when it does not
  match or when text remains after the match. The alternatives of each field are tried in
  this order; the bracketed classes are ASCII, \<open>\d\<close> is any decimal digit, and the value
  of a field is what \<open>int\<close> makes of its digits.
\<close>

definition match_H :: "ucd \<Rightarrow> pystr \<Rightarrow> (nat \<times> pystr) list" where
  "match_H u s =
     (case s of
        a # b # r \<Rightarrow>
          (case decimal_value u b of
             None \<Rightarrow> []
           | Some y \<Rightarrow>
               (if (a = ord CHR ''2'' \<and> b \<in> set (lit ''0123'')) \<or> a \<in> set (lit ''01'')
                then [(10 * digit_val a + y, r)] else []))
      | _ \<Rightarrow> [])
     @ (case s of
          a # r \<Rightarrow> (case decimal_value u a of None \<Rightarrow> [] | Some x \<Rightarrow> [(x, r)])
        | [] \<Rightarrow> [])"

definition match_M :: "ucd \<Rightarrow> pystr \<Rightarrow> (nat \<times> pystr) list" where
  "match_M u s =
     (case s of
        a # b # r \<Rightarrow>
          (case decimal_value u b of
             None \<Rightarrow> []
           | Some y \<Rightarrow>
               (if a \<in> set (lit ''012345'') then [(10 * digit_val a + y, r)] else []))
      | _ \<Rightarrow> [])
     @ (case s of
          a # r \<Rightarrow> (case decimal_value u a of None \<Rightarrow> [] | Some x \<Rightarrow> [(x, r)])
        | [] \<Rightarrow> [])"

definition match_colon :: "pystr \<Rightarrow> pystr list" where
  "match_colon s = (case s of c # r \<Rightarrow> (if c = ord CHR '':'' then [r] else []) | [] \<Rightarrow> [])"

definition strptime_HM :: "ucd \<Rightarrow> pystr \<Rightarrow> exn + (nat \<times> nat)" where
  "strptime_HM u s =
     (case concat (map (\<lambda>(h, r1). concat (map (\<lambda>r2. map (\<lambda>(m, r3). (h, m, r3)) (match_M u r2))
                                              (match_colon r1)))
                       (match_H u s)) of
        [] \<Rightarrow> Inl ValueError
      | (h, m, r3) # _ \<Rightarrow> (if r3 = [] then Inr (h, m) else Inl ValueError))"

definition two_digits :: "nat \<Rightarrow> pystr" where
  "two_digits n = [digit_char (n div 10), digit_char (n mod 10)]"

text \<open>\<open>strftime('%I:%M %p')\<close>: the hour on the 12-hour clock, two digits each.\<close>

definition strftime_IMp :: "nat \<times> nat \<Rightarrow> pystr" where
  "strftime_IMp t =
     (case t of (h, m) \<Rightarrow>
        two_digits (if h mod 12 = 0 then 12 else h mod 12) @ lit '':'' @ two_digits m
        @ (if h < 12 then lit '' AM'' else lit '' PM''))"

text \<open>The argument comes out of a parsed record, so it need not be a string; the bare
  \<open>except\<close> returns it as it came, also when \<open>strptime\<close> refuses its type.\<close>

fun format_time :: "ucd \<Rightarrow> json \<Rightarrow> json" where
  "format_time u (JStr s) =
     (case strptime_HM u s of Inr t \<Rightarrow> JStr (strftime_IMp t) | Inl e \<Rightarrow> JStr s)"
| "format_time u j = j"

section \<open>Module codes\<close>

text \<open>\<open>re.search(r'\b[A-Z]{3}[0-9]{4}\b', s)\<close>: the leftmost position where the pattern
  matches. A word boundary lies between two neighbours of which exactly one is a word
  character; outside the string there is none.\<close>

definition word_boundary :: "ucd \<Rightarrow> nat option \<Rightarrow> nat option \<Rightarrow> bool" where
  "word_boundary u a b =
     ((case a of None \<Rightarrow> False | Some c \<Rightarrow> is_word u c)
      \<noteq> (case b of None \<Rightarrow> False | Some c \<Rightarrow> is_word u c))"

definition first_char :: "pystr \<Rightarrow> nat option" where
  "first_char s = (case s of [] \<Rightarrow> None | c # _ \<Rightarrow> Some c)"

definition pattern_at :: "ucd \<Rightarrow> nat option \<Rightarrow> pystr \<Rightarrow> bool" where
  "pattern_at u prev s =
     (word_boundary u prev (first_char s)
      \<and> length (take 7 s) = 7
      \<and> list_all is_upper (take 3 s)
      \<and> list_all is_digit (take 4 (drop 3 s))
      \<and> word_boundary u (first_char (drop 6 s)) (first_char (drop 7 s)))"

fun search_from :: "ucd \<Rightarrow> nat option \<Rightarrow> pystr \<Rightarrow> pystr option" where
  "search_from u prev [] = None"
| "search_from u prev (c # cs) =
     (if pattern_at u prev (c # cs) then Some (take 7 (c # cs))
      else search_from u (Some c) cs)"

definition module_search :: "ucd \<Rightarrow> pystr \<Rightarrow> pystr option" where
  "module_search u s = search_from u None s"

section \<open>The sub-intents\<close>

text \<open>
  Each branch of the router gives the calls it made to the library data service, in
  order, and either the exception that left the branch or the text of
  \<open>library_context\<close> after it (empty when the branch did not set it). Log lines
  change neither the calls nor the response and are left out.
\<close>

definition newline :: pystr where
  "newline = [10]"

definition right_quote :: pystr where
  "right_quote = [8217]"

definition em_dash :: pystr where
  "em_dash = [8212]"

definition clarification :: pystr where
  "clarification =
     lit ''I'' @ right_quote @ lit ''m sorry, I couldn'' @ right_quote
     @ lit ''t find any books. ''
     @ lit ''Could you provide a title, author, or module code?''"

definition book_line :: "ucd \<Rightarrow> json \<Rightarrow> exn + pystr" where
  "book_line u b =
     and_then (dict_get b (lit ''title'') (JStr (lit ''?''))) (\<lambda>title.
     and_then (dict_get b (lit ''author'') (JStr (lit ''?''))) (\<lambda>author.
     and_then (dict_get b (lit ''copies_available'') (JInt 0)) (\<lambda>copies.
       Inr (str u title @ lit '' by '' @ str u author @ lit '' (Available: '' @ str u copies
            @ lit '')''))))"

text \<open>Lines 218 to 227: the list of at most five books, or the request for
  clarification.\<close>

definition book_context :: "ucd \<Rightarrow> json \<Rightarrow> exn + pystr" where
  "book_context u items =
     (if truthy items then
        and_then (slice_to 5 items) (\<lambda>first5.
        and_then (iterate first5) (\<lambda>bs.
        and_then (for_each (book_line u) bs) (\<lambda>book_list.
          Inr (lit ''Here are some books you might like:'' @ newline
               @ join newline book_list))))
      else Inr clarification)"

definition book_params :: "ucd \<Rightarrow> pystr \<Rightarrow> params" where
  "book_params u msg =
     (case module_search u msg of
        None \<Rightarrow> [(lit ''q'', JStr msg)]
      | Some module_code \<Rightarrow>
          (if module_code \<noteq> []
           then [(lit ''q'', JStr msg), (lit ''module'', JStr module_code)]
           else [(lit ''q'', JStr msg)]))"

definition fallback_params :: params where
  "fallback_params = [(lit ''page'', JInt 1), (lit ''per_page'', JInt 5)]"

text \<open>Lines 206 to 210.\<close>

definition primary_items :: "json \<Rightarrow> json" where
  "primary_items raw =
     (case raw of
        JDict kvs \<Rightarrow>
          (case map_of kvs (lit ''items'') of
             None \<Rightarrow> JList []
           | Some v \<Rightarrow> (if truthy v then v else JList []))
      | JList xs \<Rightarrow> raw
      | _ \<Rightarrow> JList [])"

definition book_search :: "ucd \<Rightarrow> env \<Rightarrow> pystr \<Rightarrow> lib_call list \<times> (exn + pystr)" where
  "book_search u env msg =
     (let ps = book_params u msg;
          raw = fetch_library_data env (lit ''books'') (Some ps);
          items = primary_items raw
      in if \<not> truthy items then
           (let raw2 = fetch_library_data env (lit ''books'') (Some fallback_params)
            in ([(lit ''books'', Some ps), (lit ''books'', Some fallback_params)],
                and_then
                  (dict_get raw2 (lit ''items'') (if isinstance_list raw2 then raw2 else JList []))
                  (book_context u)))
         else ([(lit ''books'', Some ps)], book_context u items))"

definition campus_endpoint :: "int \<Rightarrow> pystr \<Rightarrow> pystr" where
  "campus_endpoint campus_id rest = lit ''libraries/'' @ str_int campus_id @ lit ''/'' @ rest"

definition computer_line :: "ucd \<Rightarrow> json \<Rightarrow> exn + pystr" where
  "computer_line u c =
     and_then (getitem c (lit ''identifier'')) (\<lambda>identifier.
     and_then (getitem c (lit ''specs'')) (\<lambda>specs.
     and_then (getitem c (lit ''is_occupied'')) (\<lambda>occ.
       Inr (str u identifier @ lit '' ('' @ str u specs @ lit '') '' @ em_dash @ lit '' ''
            @ (if truthy occ then lit ''Occupied'' else lit ''Free'')))))"

definition computer_availability ::
  "ucd \<Rightarrow> env \<Rightarrow> int \<Rightarrow> lib_call list \<times> (exn + pystr)" where
  "computer_availability u env campus_id =
     (let computers = fetch_library_data env (campus_endpoint campus_id (lit ''computers'')) None
      in ([(campus_endpoint campus_id (lit ''computers''), None)],
          if truthy computers then
            and_then (slice_to 5 computers) (\<lambda>first5.
            and_then (iterate first5) (\<lambda>cs.
            and_then (for_each (computer_line u) cs) (\<lambda>ls.
              Inr (lit ''Available Computers:'' @ newline @ join newline ls))))
          else Inr []))"

text \<open>A comprehension with a condition that may raise.\<close>

fun filter_each :: "('a \<Rightarrow> exn + bool) \<Rightarrow> 'a list \<Rightarrow> exn + 'a list" where
  "filter_each p [] = Inr []"
| "filter_each p (x # xs) =
     (case p x of Inl e \<Rightarrow> Inl e
      | Inr b \<Rightarrow> (case filter_each p xs of Inl e \<Rightarrow> Inl e
                  | Inr ys \<Rightarrow> Inr (if b then x # ys else ys)))"

definition seat_is_free :: "json \<Rightarrow> exn + bool" where
  "seat_is_free s = and_then (getitem s (lit ''is_occupied'')) (\<lambda>occ. Inr (\<not> truthy occ))"

definition seat_line :: "ucd \<Rightarrow> json \<Rightarrow> exn + pystr" where
  "seat_line u s =
     and_then (getitem s (lit ''identifier'')) (\<lambda>identifier.
     and_then (getitem s (lit ''is_computer'')) (\<lambda>comp.
       Inr (str u identifier @ lit '' (''
            @ (if truthy comp then lit ''Computer'' else lit ''Study'') @ lit '')'')))"

definition seat_availability ::
  "ucd \<Rightarrow> env \<Rightarrow> int \<Rightarrow> lib_call list \<times> (exn + pystr)" where
  "seat_availability u env campus_id =
     (let seats =
            fetch_library_data env (campus_endpoint campus_id (lit ''seats/availability'')) None
      in ([(campus_endpoint campus_id (lit ''seats/availability''), None)],
          if truthy seats then
            and_then (iterate seats) (\<lambda>ss.
            and_then (filter_each seat_is_free ss) (\<lambda>free.
            and_then (for_each (seat_line u) (take 5 free)) (\<lambda>ls.
              Inr (lit ''Available Seats:'' @ newline @ join newline ls))))
          else Inr []))"

definition announcement_line :: "ucd \<Rightarrow> json \<Rightarrow> exn + pystr" where
  "announcement_line u a =
     and_then (getitem a (lit ''title'')) (\<lambda>title.
     and_then (getitem a (lit ''body'')) (\<lambda>body.
     and_then (slice_to 50 body) (\<lambda>body50.
       Inr (str u title @ lit '': '' @ str u body50 @ lit ''...''))))"

definition announcements :: "ucd \<Rightarrow> env \<Rightarrow> lib_call list \<times> (exn + pystr)" where
  "announcements u env =
     (let anns =
            fetch_library_data env (lit ''announcements'') (Some [(lit ''limit'', JInt 3)])
      in ([(lit ''announcements'', Some [(lit ''limit'', JInt 3)])],
          if truthy anns then
            and_then (iterate anns) (\<lambda>as.
            and_then (for_each (announcement_line u) as) (\<lambda>announcement_list.
              Inr (lit ''Latest Announcements:'' @ newline
                   @ join newline announcement_list)))
          else Inr []))"

definition hours_line :: "ucd \<Rightarrow> json \<Rightarrow> exn + pystr" where
  "hours_line u day =
     and_then (getitem day (lit ''weekday'')) (\<lambda>weekday.
     and_then (getitem day (lit ''open_time'')) (\<lambda>open_time.
     and_then (getitem day (lit ''close_time'')) (\<lambda>close_time.
       Inr (str u weekday @ lit '': '' @ str u (format_time u open_time) @ lit '' to ''
            @ str u (format_time u close_time)))))"

definition library_hours :: "ucd \<Rightarrow> env \<Rightarrow> int \<Rightarrow> lib_call list \<times> (exn + pystr)" where
  "library_hours u env campus_id =
     (let hours = fetch_library_data env (campus_endpoint campus_id (lit ''hours'')) None
      in ([(campus_endpoint campus_id (lit ''hours''), None)],
          if truthy hours then
            and_then (iterate hours) (\<lambda>days.
            and_then (for_each (hours_line u) days) (\<lambda>hours_list.
              Inr (lit ''Library Hours:'' @ newline @ join newline hours_list)))
          else Inr []))"

definition study_room_line :: "ucd \<Rightarrow> json \<Rightarrow> exn + pystr" where
  "study_room_line u r =
     and_then (getitem r (lit ''name'')) (\<lambda>name.
     and_then (getitem r (lit ''capacity'')) (\<lambda>capacity.
     and_then (getitem r (lit ''member_count'')) (\<lambda>member_count.
       Inr (str u name @ lit '' ('' @ str u capacity @ lit '' seats, '' @ str u member_count
            @ lit '' occupied)''))))"

definition study_rooms :: "ucd \<Rightarrow> env \<Rightarrow> lib_call list \<times> (exn + pystr)" where
  "study_rooms u env =
     (let rooms = fetch_library_data env (lit ''study_rooms'') None
      in ([(lit ''study_rooms'', None)],
          if truthy rooms then
            and_then (slice_to 3 rooms) (\<lambda>first3.
            and_then (iterate first3) (\<lambda>rs.
            and_then (for_each (study_room_line u) rs) (\<lambda>room_list.
              Inr (lit ''Study Rooms:'' @ newline @ join newline room_list))))
          else Inr []))"

text \<open>The second \<open>computer\<close> branch of the chain (lines 278 to 285).\<close>

definition computer_is_active :: "json \<Rightarrow> exn + bool" where
  "computer_is_active c = and_then (getitem c (lit ''is_active'')) (\<lambda>act. Inr (truthy act))"

definition active_computer_line :: "ucd \<Rightarrow> json \<Rightarrow> exn + pystr" where
  "active_computer_line u c =
     and_then (getitem c (lit ''identifier'')) (\<lambda>identifier.
     and_then (getitem c (lit ''specs'')) (\<lambda>specs.
       Inr (lit ''Computer '' @ str u identifier @ lit '' ('' @ str u specs @ lit '')'')))"

text \<open>In the comprehension the condition and the line of one element are evaluated
  before the next element is looked at.\<close>

fun active_lines :: "ucd \<Rightarrow> json list \<Rightarrow> exn + pystr list" where
  "active_lines u [] = Inr []"
| "active_lines u (c # cs) =
     and_then (computer_is_active c) (\<lambda>act.
       if act then
         and_then (active_computer_line u c) (\<lambda>l.
         and_then (active_lines u cs) (\<lambda>ls. Inr (l # ls)))
       else active_lines u cs)"

definition active_computers ::
  "ucd \<Rightarrow> env \<Rightarrow> int \<Rightarrow> lib_call list \<times> (exn + pystr)" where
  "active_computers u env campus_id =
     (let computers = fetch_library_data env (campus_endpoint campus_id (lit ''computers'')) None
      in ([(campus_endpoint campus_id (lit ''computers''), None)],
          if truthy computers then
            and_then (slice_to 3 computers) (\<lambda>first3.
            and_then (iterate first3) (\<lambda>cs.
            and_then (active_lines u cs) (\<lambda>computer_list.
              Inr (lit ''Available Computers:'' @ newline @ join newline computer_list))))
          else Inr []))"

definition room_line :: "ucd \<Rightarrow> json \<Rightarrow> exn + pystr" where
  "room_line u r =
     and_then (getitem r (lit ''name'')) (\<lambda>name.
     and_then (getitem r (lit ''room_type'')) (\<lambda>room_type.
       Inr (str u name @ lit '' ('' @ str u room_type @ lit '')'')))"

definition general_rooms :: "ucd \<Rightarrow> env \<Rightarrow> int \<Rightarrow> lib_call list \<times> (exn + pystr)" where
  "general_rooms u env campus_id =
     (let rooms = fetch_library_data env (campus_endpoint campus_id (lit ''rooms'')) None
      in ([(campus_endpoint campus_id (lit ''rooms''), None)],
          if truthy rooms then
            and_then (iterate rooms) (\<lambda>rs.
            and_then (for_each (room_line u) rs) (\<lambda>room_list.
              Inr (lit ''Available Rooms:'' @ newline @ join newline room_list)))
          else Inr []))"

section \<open>The router\<close>

text \<open>The \<open>if\<close>/\<open>elif\<close> chain of lines 197 to 292, in the order of the source. When no
  condition holds nothing is fetched and \<open>library_context\<close> keeps its initial value.\<close>

definition dispatch ::
  "ucd \<Rightarrow> env \<Rightarrow> pystr \<Rightarrow> pystr \<Rightarrow> int \<Rightarrow> lib_call list \<times> (exn + pystr)" where
  "dispatch u env msg user_message campus_id =
     (if contains (lit ''book'') user_message \<or> contains (lit ''textbook'') user_message
        then book_search u env msg
      else if contains (lit ''computer'') user_message
        then computer_availability u env campus_id
      else if contains (lit ''seat'') user_message
        then seat_availability u env campus_id
      else if contains (lit ''announcement'') user_message
              \<or> contains (lit ''news'') user_message
        then announcements u env
      else if contains (lit ''hour'') user_message \<or> contains (lit ''open'') user_message
              \<or> contains (lit ''close'') user_message
        then library_hours u env campus_id
      else if contains (lit ''study room'') user_message
              \<or> contains (lit ''group study'') user_message
        then study_rooms u env
      else if contains (lit ''computer'') user_message
        then active_computers u env campus_id
      else if contains (lit ''room'') user_message \<or> contains (lit ''venue'') user_message
        then general_rooms u env campus_id
      else ([], Inr []))"

definition gate_keywords :: "pystr list" where
  "gate_keywords =
     [lit ''book'', lit ''library'', lit ''seat'', lit ''computer'', lit ''room'',
      lit ''announcement'', lit ''hour'', lit ''study room'', lit ''venue'']"

text \<open>Lines 190 to 292: the gate, then the chain.\<close>

definition library_router :: "ucd \<Rightarrow> env \<Rightarrow> pystr \<Rightarrow> lib_call list \<times> (exn + pystr)" where
  "library_router u env msg =
     (let user_message = lower u msg
      in if list_ex (\<lambda>keyword. contains keyword user_message) gate_keywords
         then dispatch u env msg user_message (get_campus_id u msg)
         else ([], Inr []))"

section \<open>The endpoint\<close>

record http_response =
  status_code :: nat
  body :: json

text \<open>A dictionary returned by the handler is sent with status 200.\<close>

definition reply :: "pystr \<Rightarrow> http_response" where
  "reply text = \<lparr>status_code = 200, body = JDict [(lit ''reply'', JStr text)]\<rparr>"

definition busy_text :: pystr where
  "busy_text = lit ''Our systems are currently busy. Please try again in a moment.''"

definition difficulties_text :: pystr where
  "difficulties_text =
     lit ''Apologies, I'm experiencing technical difficulties. ''
     @ lit ''Please contact help@ump.ac.za for immediate support.''"

definition system_message :: "pystr \<Rightarrow> json" where
  "system_message text =
     JDict [(lit ''role'', JStr (lit ''system'')), (lit ''content'', JStr text)]"

definition user_message_of :: "pystr \<Rightarrow> json" where
  "user_message_of text =
     JDict [(lit ''role'', JStr (lit ''user'')), (lit ''content'', JStr text)]"

definition make_payload :: "json list \<Rightarrow> payload" where
  "make_payload ms =
     \<lparr>model = MODEL_VERSION, messages = ms, temperature = (7, 1), max_tokens = 500,
      top_p = (9, 1), stop = [lit ''</response>'', lit ''User:'', lit ''System:'']\<rparr>"

text \<open>Lines 180 to 187: the system prompt, then the last three entries of a non-empty
  context.\<close>

definition initial_messages :: "env \<Rightarrow> ChatRequest \<Rightarrow> json list" where
  "initial_messages env request =
     (case context' request of
        None \<Rightarrow> [SCCS_SYSTEM_PROMPT env]
      | Some c \<Rightarrow>
          (if c \<noteq> [] then [SCCS_SYSTEM_PROMPT env] @ drop (length c - 3) c
           else [SCCS_SYSTEM_PROMPT env]))"

text \<open>Lines 294 to 303.\<close>

definition final_messages :: "json list \<Rightarrow> pystr \<Rightarrow> pystr \<Rightarrow> json list" where
  "final_messages ms library_context msg =
     (if library_context \<noteq> [] then ms @ [system_message library_context] else ms)
     @ [user_message_of msg]"

text \<open>Lines 332 to 336, on an accepted response.\<close>

definition read_reply :: "ucd \<Rightarrow> json option \<Rightarrow> exn + http_response" where
  "read_reply u parsed =
     and_then (case parsed of None \<Rightarrow> Inl ValueError | Some j \<Rightarrow> Inr j) (\<lambda>result.
     and_then (getitem result (lit ''choices'')) (\<lambda>choices.
     and_then (getitem0 choices) (\<lambda>choice.
     and_then (getitem choice (lit ''message'')) (\<lambda>m.
     and_then (getitem m (lit ''content'')) (\<lambda>ai_message.
       case ai_message of
         JStr text \<Rightarrow> Inr (reply (strip u (replace (lit ''OpenRouter'') (lit ''SCCS'') text)))
       | _ \<Rightarrow> Inl AttributeError)))))"

text \<open>Lines 320 to 336: the inner \<open>try\<close> catches the \<open>RequestException\<close>s of the call
  and the \<open>HTTPError\<close> of \<open>raise_for_status\<close>, and nothing else.\<close>

definition complete :: "ucd \<Rightarrow> env \<Rightarrow> payload \<Rightarrow> exn + http_response" where
  "complete u env p =
     (case completion_service env p of
        ConnectionError \<Rightarrow> Inr (reply busy_text)
      | Timeout \<Rightarrow> Inr (reply busy_text)
      | Response st parsed \<Rightarrow>
          (if raise_for_status st then Inr (reply busy_text) else read_reply u parsed))"

text \<open>What one request did and what was sent back.\<close>

record 'r outcome =
  library_calls :: "lib_call list"
  completion_calls :: "payload list"
  result :: 'r

text \<open>The body of the outer \<open>try\<close> (lines 173 to 336): it raises or returns a
  response.\<close>

definition chat_body :: "ucd \<Rightarrow> env \<Rightarrow> ChatRequest \<Rightarrow> (exn + http_response) outcome" where
  "chat_body u env request =
     (if strip u (message request) = [] then
        \<lparr>library_calls = [], completion_calls = [],
         result = Inl (HTTPException 400 (lit ''Empty message''))\<rparr>
      else
        (let ms = initial_messages env request
         in case library_router u env (message request) of
              (calls, Inl e) \<Rightarrow>
                \<lparr>library_calls = calls, completion_calls = [], result = Inl e\<rparr>
            | (calls, Inr library_context) \<Rightarrow>
                (let p = make_payload (final_messages ms library_context (message request))
                 in \<lparr>library_calls = calls, completion_calls = [p],
                     result = complete u env p\<rparr>)))"

text \<open>An exception that left the handler would be answered by the framework: an
  \<open>HTTPException\<close> with its status code and detail, any other with status 500.\<close>

fun framework_response :: "exn \<Rightarrow> http_response" where
  "framework_response (HTTPException st detail) =
     \<lparr>status_code = st, body = JDict [(lit ''detail'', JStr detail)]\<rparr>"
| "framework_response e =
     \<lparr>status_code = 500, body = JStr (lit ''Internal Server Error'')\<rparr>"

text \<open>\<open>except Exception\<close> (line 338) catches every exception of the model.\<close>

definition is_Exception :: "exn \<Rightarrow> bool" where
  "is_Exception e = True"

definition chat_endpoint :: "ucd \<Rightarrow> env \<Rightarrow> ChatRequest \<Rightarrow> http_response outcome" where
  "chat_endpoint u env request =
     (let b = chat_body u env request
      in \<lparr>library_calls = library_calls b, completion_calls = completion_calls b,
          result =
            (case result b of
               Inr response \<Rightarrow> response
             | Inl e \<Rightarrow>
                 (if is_Exception e then reply difficulties_text
                  else framework_response e))\<rparr>)"

section \<open>Notions used to state the properties\<close>

text \<open>The last three elements of a list, in their order.\<close>

definition last3 :: "'a list \<Rightarrow> 'a list" where
  "last3 xs = rev (take 3 (rev xs))"

definition retained_context :: "ChatRequest \<Rightarrow> json list" where
  "retained_context request = (case context' request of None \<Rightarrow> [] | Some c \<Rightarrow> last3 c)"


text \<open>A time of day written with two digits for the hour and two for the minute, and
  its reading on the 12-hour clock: midnight and noon are hour 12.\<close>

definition hhmm :: "nat \<Rightarrow> nat \<Rightarrow> pystr" where
  "hhmm h m = two_digits h @ lit '':'' @ two_digits m"

definition twelve_hour :: "nat \<Rightarrow> nat \<Rightarrow> pystr" where
  "twelve_hour h m =
     (if h = 0 then lit ''12'' else if h \<le> 12 then two_digits h else two_digits (h - 12))
     @ lit '':'' @ two_digits m @ (if h < 12 then lit '' AM'' else lit '' PM'')"

text \<open>The number that one or two decimal digits write, and the time of day that a text
  writes when its character at position \<open>i\<close> is a colon between two such numbers. A time
  text writes an hour below 24 and a minute below 60 in this way.\<close>

definition read_number :: "ucd \<Rightarrow> pystr \<Rightarrow> nat option" where
  "read_number u w =
     (case w of
        [a] \<Rightarrow> decimal_value u a
      | [a, b] \<Rightarrow>
          (case (decimal_value u a, decimal_value u b) of
             (Some x, Some y) \<Rightarrow> Some (10 * x + y)
           | _ \<Rightarrow> None)
      | _ \<Rightarrow> None)"

definition time_reading :: "ucd \<Rightarrow> pystr \<Rightarrow> nat \<Rightarrow> (nat \<times> nat) option" where
  "time_reading u s i =
     (if i < length s \<and> s ! i = ord CHR '':'' then
        (case (read_number u (take i s), read_number u (drop (Suc i) s)) of
           (Some h, Some m) \<Rightarrow> Some (h, m)
         | _ \<Rightarrow> None)
      else None)"

definition is_time_text :: "ucd \<Rightarrow> pystr \<Rightarrow> bool" where
  "is_time_text u s =
     list_ex (\<lambda>i. case time_reading u s i of None \<Rightarrow> False | Some (h, m) \<Rightarrow> h < 24 \<and> m < 60)
       [1, 2]"

text \<open>A module code: three capital letters, then four digits.\<close>

definition is_module_code :: "pystr \<Rightarrow> bool" where
  "is_module_code w =
     (length w = 7 \<and> list_all is_upper (take 3 w) \<and> list_all is_digit (drop 3 w))"

definition word_at_end :: "ucd \<Rightarrow> pystr \<Rightarrow> bool" where
  "word_at_end u s = (case first_char (rev s) of None \<Rightarrow> False | Some c \<Rightarrow> is_word u c)"

definition word_at_start :: "ucd \<Rightarrow> pystr \<Rightarrow> bool" where
  "word_at_start u s = (case first_char s of None \<Rightarrow> False | Some c \<Rightarrow> is_word u c)"

text \<open>The character before a position of a text: the last one of what precedes it.\<close>

definition prev_of :: "nat option \<Rightarrow> pystr \<Rightarrow> nat option" where
  "prev_of prev p = (if p = [] then prev else Some (last p))"

text \<open>A seat record as the data service sends it: the three fields the router reads,
  and whatever else the record holds.\<close>

record seat =
  seat_id :: json
  is_occupied :: bool
  is_computer :: bool
  other_fields :: "(pystr \<times> json) list"

definition seat_json :: "seat \<Rightarrow> json" where
  "seat_json s =
     JDict ([(lit ''identifier'', seat_id s), (lit ''is_occupied'', JBool (is_occupied s)),
             (lit ''is_computer'', JBool (is_computer s))] @ other_fields s)"


subsection \<open>A campus for the examples\<close>

text \<open>Some entries of the database beyond ASCII: the letter e with acute accent (233,
  capital 201), the no-break space (160) and the Arabic-Indic digits (1632 to 1641).\<close>

definition sample_ucd :: ucd where
  "sample_ucd =
     \<lparr>ucd_decimal = (\<lambda>c. if 1632 \<le> c \<and> c \<le> 1641 then Some (c - 1632) else None),
      ucd_alnum = (\<lambda>c. c = 233 \<or> c = 201 \<or> (1632 \<le> c \<and> c \<le> 1641)),
      ucd_space = (\<lambda>c. c = 160),
      ucd_printable = (\<lambda>c. c = 233 \<or> c = 201 \<or> (1632 \<le> c \<and> c \<le> 1641)),
      ucd_lower = map (\<lambda>c. if c = 201 then 233 else lower_char c)\<rparr>"

definition monday_hours :: json where
  "monday_hours =
     JDict [(lit ''weekday'', JStr (lit ''Monday'')), (lit ''open_time'', JStr (lit ''08:00'')),
            (lit ''close_time'', JStr (lit ''20:00''))]"

definition example_seat :: "string \<Rightarrow> bool \<Rightarrow> bool \<Rightarrow> seat" where
  "example_seat name occupied computer =
     \<lparr>seat_id = JStr (lit name), is_occupied = occupied, is_computer = computer,
      other_fields = [(lit ''floor'', JInt 2)]\<rparr>"

definition example_seats :: "seat list" where
  "example_seats =
     [example_seat ''A1'' False False, example_seat ''A2'' True False,
      example_seat ''A3'' False True, example_seat ''A4'' False False,
      example_seat ''A5'' True True, example_seat ''A6'' False False,
      example_seat ''A7'' False True, example_seat ''A8'' False False]"

definition example_library :: "pystr \<Rightarrow> params option \<Rightarrow> http_outcome" where
  "example_library endpoint ps =
     (if endpoint = lit ''libraries/1/hours'' then Response 200 (Some (JList [monday_hours]))
      else if endpoint = lit ''libraries/1/seats/availability''
        then Response 200 (Some (JList (map seat_json example_seats)))
      else if endpoint = lit ''libraries/1/computers''
        then Response 200 (Some (JList
               [JDict [(lit ''identifier'', JStr (lit ''PC-01'')),
                       (lit ''specs'', JStr (lit ''16GB'')),
                       (lit ''is_occupied'', JBool False)]]))
      else if endpoint = lit ''books''
        then Response 200 (Some (JDict [(lit ''items'', JList
               [JDict [(lit ''title'', JStr (lit ''Databases'')),
                       (lit ''author'', JStr (lit ''Date'')),
                       (lit ''copies_available'', JInt 2)]])]))
      else Response 503 None)"

definition example_env :: env where
  "example_env =
     \<lparr>prompt_content = lit ''You are the SCCS assistant.'', library_service = example_library,
      completion_service = (\<lambda>p. Timeout)\<rparr>"


definition hours_request :: ChatRequest where
  "hours_request =
     \<lparr>message = lit ''What time does the library open?'', user_id = None,
      context' = Some [user_message_of (lit ''Hi''),
                       JDict [(lit ''role'', JStr (lit ''assistant'')),
                              (lit ''content'', JStr (lit ''Hello!''))],
                       user_message_of (lit ''Where is the library?''),
                       JDict [(lit ''role'', JStr (lit ''assistant'')),
                              (lit ''content'', JStr (lit ''Building 15.''))]]\<rparr>"


section \<open>Auxiliary facts\<close>

lemma contains_iff: "contains sub s \<longleftrightarrow> (\<exists>p q. s = p @ sub @ q)"
proof (induction s)
  case Nil
  then show ?case by auto
next
  case (Cons c cs)
  show ?case
  proof
    assume "contains sub (c # cs)"
    then consider "prefix sub (c # cs)" | "contains sub cs" by auto
    then show "\<exists>p q. c # cs = p @ sub @ q"
    proof cases
      case 1
      then obtain q where "c # cs = sub @ q" by (auto simp: prefix_def)
      then have "c # cs = [] @ sub @ q" by simp
      then show ?thesis by blast
    next
      case 2
      with Cons obtain p q where "cs = p @ sub @ q" by blast
      then have "c # cs = (c # p) @ sub @ q" by simp
      then show ?thesis by blast
    qed
  next
    assume "\<exists>p q. c # cs = p @ sub @ q"
    then obtain p q where pq: "c # cs = p @ sub @ q" by blast
    show "contains sub (c # cs)"
    proof (cases p)
      case Nil
      with pq have "prefix sub (c # cs)" by (simp add: prefix_def)
      then show ?thesis by simp
    next
      case (Cons a p')
      with pq have "cs = p' @ sub @ q" by simp
      with Cons.IH have "contains sub cs" by blast
      then show ?thesis by simp
    qed
  qed
qed

lemma contains_longer: "contains (x @ sub @ y) s \<Longrightarrow> contains sub s"
proof -
  assume "contains (x @ sub @ y) s"
  then obtain p q where "s = p @ (x @ sub @ y) @ q" by (auto simp: contains_iff)
  then have "s = (p @ x) @ sub @ (y @ q)" by simp
  then show ?thesis unfolding contains_iff by blast
qed

lemma lit_eq_iff [simp]: "lit a = lit b \<longleftrightarrow> a = b"
  by (simp add: lit_def inj_map_eq_map inj_on_def)

lemma lit_append: "lit (a @ b) = lit a @ lit b"
  by (simp add: lit_def)

lemma textbook_has_book: "contains (lit ''textbook'') s \<Longrightarrow> contains (lit ''book'') s"
  using contains_longer [of "lit ''text''" "lit ''book''" "[]" s]
  by (simp add: lit_append [symmetric])

lemma study_room_has_room: "contains (lit ''study room'') s \<Longrightarrow> contains (lit ''room'') s"
  using contains_longer [of "lit ''study ''" "lit ''room''" "[]" s]
  by (simp add: lit_append [symmetric])

lemma gate_open:
  "list_ex (\<lambda>keyword. contains keyword s) gate_keywords \<longleftrightarrow>
     contains (lit ''book'') s \<or> contains (lit ''library'') s \<or> contains (lit ''seat'') s
     \<or> contains (lit ''computer'') s \<or> contains (lit ''room'') s
     \<or> contains (lit ''announcement'') s \<or> contains (lit ''hour'') s
     \<or> contains (lit ''study room'') s \<or> contains (lit ''venue'') s"
  by (simp add: gate_keywords_def)

lemma computer_first:
  assumes "contains (lit ''computer'') (lower u msg)"
    and "\<not> contains (lit ''book'') (lower u msg)"
  shows "library_router u env msg = computer_availability u env (get_campus_id u msg)"
proof -
  from assms(2) have "\<not> contains (lit ''textbook'') (lower u msg)"
    using textbook_has_book by blast
  with assms show ?thesis
    by (simp add: library_router_def dispatch_def gate_open)
qed

lemma gate_closed:
  assumes "\<not> list_ex (\<lambda>keyword. contains keyword (lower u msg)) gate_keywords"
  shows "library_router u env msg = ([], Inr [])"
  using assms by (simp add: library_router_def)

lemma last3_drop: "last3 xs = drop (length xs - 3) xs"
  by (simp add: last3_def rev_take)

lemma initial_messages_eq:
  "initial_messages env request = [SCCS_SYSTEM_PROMPT env] @ retained_context request"
  by (auto simp: initial_messages_def retained_context_def last3_drop split: option.splits)

lemma last3_suffix: "suffix (last3 xs) xs"
  by (simp add: last3_drop suffix_drop)

lemma last3_length: "length (last3 xs) = min 3 (length xs)"
  by (simp add: last3_def)







lemma prev_of_Cons: "prev_of prev (c # p) = prev_of (Some c) p"
  by (simp add: prev_of_def)

lemma pattern_at_Nil: "\<not> pattern_at u prev []"
  by (simp add: pattern_at_def)

lemma search_from_None_iff:
  "search_from u prev s = None \<longleftrightarrow> (\<forall>p t. s = p @ t \<longrightarrow> \<not> pattern_at u (prev_of prev p) t)"
proof (induction s arbitrary: prev)
  case Nil
  then show ?case by (simp add: pattern_at_Nil)
next
  case (Cons c cs)
  show ?case
  proof
    assume n: "search_from u prev (c # cs) = None"
    then have a: "\<not> pattern_at u prev (c # cs)" and b: "search_from u (Some c) cs = None"
      by (auto split: if_splits)
    show "\<forall>p t. c # cs = p @ t \<longrightarrow> \<not> pattern_at u (prev_of prev p) t"
    proof (intro allI impI)
      fix p t assume e: "c # cs = p @ t"
      show "\<not> pattern_at u (prev_of prev p) t"
      proof (cases p)
        case Nil
        with e a show ?thesis by (simp add: prev_of_def)
      next
        case (Cons x p')
        with e have "cs = p' @ t" "x = c" by simp_all
        with b Cons.IH [of "Some c"] have "\<not> pattern_at u (prev_of (Some c) p') t" by blast
        with Cons \<open>x = c\<close> show ?thesis by (simp add: prev_of_Cons)
      qed
    qed
  next
    assume h: "\<forall>p t. c # cs = p @ t \<longrightarrow> \<not> pattern_at u (prev_of prev p) t"
    then have "\<not> pattern_at u (prev_of prev []) (c # cs)" by (metis append_Nil)
    then have a: "\<not> pattern_at u prev (c # cs)" by (simp add: prev_of_def)
    have "\<forall>p t. cs = p @ t \<longrightarrow> \<not> pattern_at u (prev_of (Some c) p) t"
    proof (intro allI impI)
      fix p t assume "cs = p @ t"
      then have "c # cs = (c # p) @ t" by simp
      with h have "\<not> pattern_at u (prev_of prev (c # p)) t" by blast
      then show "\<not> pattern_at u (prev_of (Some c) p) t" by (simp add: prev_of_Cons)
    qed
    with Cons.IH [of "Some c"] have "search_from u (Some c) cs = None" by blast
    with a show "search_from u prev (c # cs) = None" by simp
  qed
qed

lemma search_from_first:
  assumes "\<forall>p1 p2. p = p1 @ p2 \<longrightarrow> p2 \<noteq> [] \<longrightarrow> \<not> pattern_at u (prev_of prev p1) (p2 @ t)"
    and "pattern_at u (prev_of prev p) t"
  shows "search_from u prev (p @ t) = Some (take 7 t)"
  using assms
proof (induction p arbitrary: prev)
  case Nil
  then have "pattern_at u prev t" by (simp add: prev_of_def)
  then show ?case by (cases t) (simp_all add: pattern_at_Nil)
next
  case (Cons c p)
  from Cons.prems(1) have "\<not> pattern_at u (prev_of prev []) ((c # p) @ t)"
    by (metis append_Nil list.distinct(1))
  then have a: "\<not> pattern_at u prev (c # (p @ t))" by (simp add: prev_of_def)
  have "\<forall>p1 p2. p = p1 @ p2 \<longrightarrow> p2 \<noteq> [] \<longrightarrow> \<not> pattern_at u (prev_of (Some c) p1) (p2 @ t)"
  proof (intro allI impI)
    fix p1 p2 assume "p = p1 @ p2" "p2 \<noteq> []"
    then have "c # p = (c # p1) @ p2" by simp
    with Cons.prems(1) \<open>p2 \<noteq> []\<close> have "\<not> pattern_at u (prev_of prev (c # p1)) (p2 @ t)" by blast
    then show "\<not> pattern_at u (prev_of (Some c) p1) (p2 @ t)" by (simp add: prev_of_Cons)
  qed
  moreover from Cons.prems(2) have "pattern_at u (prev_of (Some c) p) t" by (simp add: prev_of_Cons)
  ultimately have "search_from u (Some c) (p @ t) = Some (take 7 t)" by (rule Cons.IH)
  with a show ?case by simp
qed

lemma upper_word: "is_upper c \<Longrightarrow> is_word u c" by (simp add: is_word_def)
lemma digit_word: "is_digit c \<Longrightarrow> is_word u c" by (simp add: is_word_def)

lemma first_char_append: "xs \<noteq> [] \<Longrightarrow> first_char (xs @ ys) = first_char xs"
  by (cases xs) (simp_all add: first_char_def)

lemma first_char_rev: "first_char (rev p) = prev_of None p"
  by (cases p rule: rev_cases) (simp_all add: first_char_def prev_of_def)

lemma word_at_end_prev: "word_at_end u p = (case prev_of None p of None \<Rightarrow> False | Some c \<Rightarrow> is_word u c)"
  by (simp add: word_at_end_def first_char_rev)

lemma seven_long:
  assumes "length (take 7 s) = 7"
  shows "\<exists>a b c d e f g r. s = a # b # c # d # e # f # g # r"
proof -
  from assms have "7 \<le> length s" by simp
  then show ?thesis
    by (auto simp: numeral_eq_Suc Suc_le_length_iff)
qed

lemma pattern_at_iff:
  "pattern_at u prev t \<longleftrightarrow>
     (\<exists>w post. t = w @ post \<and> is_module_code w
        \<and> \<not> (case prev of None \<Rightarrow> False | Some c \<Rightarrow> is_word u c) \<and> \<not> word_at_start u post)"
proof
  assume p: "pattern_at u prev t"
  then have "length (take 7 t) = 7" by (simp add: pattern_at_def)
  then obtain a b c d e f g r where t: "t = a # b # c # d # e # f # g # r"
    using seven_long by blast
  have "t = [a, b, c, d, e, f, g] @ r" by (simp add: t)
  moreover from p have "is_module_code [a, b, c, d, e, f, g]"
    by (simp add: t pattern_at_def is_module_code_def)
  moreover from p have "\<not> (case prev of None \<Rightarrow> False | Some c \<Rightarrow> is_word u c)"
    by (auto simp: t pattern_at_def word_boundary_def first_char_def upper_word split: option.splits)
  moreover from p have "\<not> word_at_start u r"
    by (auto simp: t pattern_at_def word_boundary_def first_char_def digit_word word_at_start_def
        split: option.splits list.splits)
  ultimately show "\<exists>w post. t = w @ post \<and> is_module_code w
        \<and> \<not> (case prev of None \<Rightarrow> False | Some c \<Rightarrow> is_word u c) \<and> \<not> word_at_start u post"
    by blast
next
  assume "\<exists>w post. t = w @ post \<and> is_module_code w
        \<and> \<not> (case prev of None \<Rightarrow> False | Some c \<Rightarrow> is_word u c) \<and> \<not> word_at_start u post"
  then obtain w post where t: "t = w @ post" and w: "is_module_code w"
    and pr: "\<not> (case prev of None \<Rightarrow> False | Some c \<Rightarrow> is_word u c)" and po: "\<not> word_at_start u post"
    by blast
  from w have "length (take 7 w) = 7" by (simp add: is_module_code_def)
  then obtain a b c d e f g r where w': "w = a # b # c # d # e # f # g # r"
    using seven_long by blast
  with w have r: "r = []" by (simp add: is_module_code_def)
  from w pr po show "pattern_at u prev t"
    by (auto simp: t w' r pattern_at_def is_module_code_def word_boundary_def first_char_def
        upper_word digit_word word_at_start_def split: option.splits list.splits)
qed

lemma pattern_at_words: "pattern_at u prev s \<Longrightarrow> list_all (is_word u) (take 7 s)"
proof -
  assume p: "pattern_at u prev s"
  then have "length (take 7 s) = 7" by (simp add: pattern_at_def)
  then obtain a b c d e f g r where t: "s = a # b # c # d # e # f # g # r"
    using seven_long by blast
  from p show ?thesis by (simp add: t pattern_at_def upper_word digit_word)
qed

lemma pattern_at_append_long:
  assumes "7 < length p"
  shows "pattern_at u prev (p @ t) = pattern_at u prev p"
proof -
  from assms have "p \<noteq> []" "drop 6 p \<noteq> []" "drop 7 p \<noteq> []" by auto
  with assms show ?thesis
    by (simp add: pattern_at_def first_char_append)
qed

lemma short_prefix_word:
  assumes "pattern_at u prev (p2 @ t)" and "p2 \<noteq> []" and "length p2 \<le> 7"
  shows "is_word u (last p2)"
proof -
  from assms(1) have "list_all (is_word u) (take 7 (p2 @ t))" by (rule pattern_at_words)
  with assms(3) have "list_all (is_word u) p2" by simp
  with assms(2) show ?thesis by (simp add: list_all_iff)
qed

lemma module_search_after:
  assumes none: "module_search u pre = None"
    and e: "\<not> word_at_end u pre"
    and here: "pattern_at u (prev_of None pre) t"
  shows "module_search u (pre @ t) = Some (take 7 t)"
proof -
  have "\<forall>p1 p2. pre = p1 @ p2 \<longrightarrow> p2 \<noteq> [] \<longrightarrow> \<not> pattern_at u (prev_of None p1) (p2 @ t)"
  proof (intro allI impI)
    fix p1 p2 assume pre: "pre = p1 @ p2" and ne: "p2 \<noteq> []"
    show "\<not> pattern_at u (prev_of None p1) (p2 @ t)"
    proof
      assume pa: "pattern_at u (prev_of None p1) (p2 @ t)"
      show False
      proof (cases "7 < length p2")
        case True
        with pa have "pattern_at u (prev_of None p1) p2" by (simp add: pattern_at_append_long)
        with none pre show False
          unfolding module_search_def search_from_None_iff by blast
      next
        case False
        with pa ne have "is_word u (last p2)" by (intro short_prefix_word) auto
        with pre ne have "word_at_end u pre"
          by (simp add: word_at_end_prev prev_of_def)
        with e show False by simp
      qed
    qed
  qed
  then show ?thesis unfolding module_search_def using here by (rule search_from_first)
qed

lemma module_search_None_iff:
  "module_search u msg = None \<longleftrightarrow>
     \<not> (\<exists>pre w post. msg = pre @ w @ post \<and> is_module_code w
          \<and> \<not> word_at_end u pre \<and> \<not> word_at_start u post)"
  unfolding module_search_def search_from_None_iff pattern_at_iff word_at_end_prev [symmetric]
  by blast

lemma decimal_of_digit: "is_digit c \<Longrightarrow> decimal_value u c = Some (digit_val c)"
  by (simp add: decimal_value_def)

lemma decimal_value_less: "decimal_value u c = Some v \<Longrightarrow> v < 10"
  by (auto simp: decimal_value_def is_digit_def digit_val_def split: if_splits option.splits)

lemma digit_char_is_digit: "d < 10 \<Longrightarrow> is_digit (digit_char d)"
  by (simp add: is_digit_def digit_char_def)

lemma digit_val_digit_char: "digit_val (digit_char d) = d"
  by (simp add: digit_val_def digit_char_def)

lemma decimal_of_digit_char: "d < 10 \<Longrightarrow> decimal_value u (digit_char d) = Some d"
  by (simp add: decimal_of_digit digit_char_is_digit digit_val_digit_char)

lemma match_H_two_digits:
  assumes "h < 24"
  shows "\<exists>rest. match_H u (two_digits h @ r) = (h, r) # rest"
proof -
  from assms have d: "h div 10 < 10" "h mod 10 < 10" by auto
  from assms have "h div 10 = 0 \<or> h div 10 = 1 \<or> (h div 10 = 2 \<and> h mod 10 < 4)"
    by presburger
  then have c: "(digit_char (h div 10) = ord CHR ''2'' \<and> digit_char (h mod 10) \<in> set (lit ''0123''))
                \<or> digit_char (h div 10) \<in> set (lit ''01'')"
    by (auto simp: digit_char_def ord_def lit_def)
  have v: "10 * digit_val (digit_char (h div 10)) + h mod 10 = h"
    by (simp add: digit_val_digit_char)
  from c d(2) show ?thesis
    unfolding match_H_def two_digits_def
    by (simp add: decimal_of_digit_char v del: set_simps)
qed

lemma match_M_two_digits:
  assumes "m < 60"
  shows "\<exists>rest. match_M u (two_digits m @ r) = (m, r) # rest"
proof -
  from assms have d: "m mod 10 < 10" by auto
  from assms have "m div 10 < 6" by presburger
  then have c: "digit_char (m div 10) \<in> set (lit ''012345'')"
    by (auto simp: digit_char_def lit_def)
  have v: "10 * digit_val (digit_char (m div 10)) + m mod 10 = m"
    by (simp add: digit_val_digit_char)
  from c d show ?thesis
    unfolding match_M_def two_digits_def
    by (simp add: decimal_of_digit_char v del: set_simps)
qed

lemma strptime_hhmm:
  assumes "h < 24" and "m < 60"
  shows "strptime_HM u (hhmm h m) = Inr (h, m)"
proof -
  obtain r1 where 1: "match_H u (two_digits h @ (lit '':'' @ two_digits m))
                      = (h, lit '':'' @ two_digits m) # r1"
    using match_H_two_digits [OF assms(1)] by blast
  obtain r2 where 2: "match_M u (two_digits m @ []) = (m, []) # r2"
    using match_M_two_digits [OF assms(2)] by blast
  have 3: "match_colon (lit '':'' @ two_digits m) = [two_digits m]"
    by (simp add: match_colon_def lit_def ord_def)
  from 1 2 3 show ?thesis
    by (simp add: strptime_HM_def hhmm_def)
qed

lemma two_digits_12: "two_digits 12 = lit ''12''"
  by code_simp

lemma strftime_twelve_hour: "h < 24 \<Longrightarrow> strftime_IMp (h, m) = twelve_hour h m"
  by (auto simp: strftime_IMp_def twelve_hour_def mod_if two_digits_12)

lemma format_time_hhmm:
  assumes "h < 24" and "m < 60"
  shows "format_time u (JStr (hhmm h m)) = JStr (twelve_hour h m)"
  using assms by (simp add: strptime_hhmm strftime_twelve_hour)

lemma match_H_sound:
  assumes "(h, r) \<in> set (match_H u s)"
  shows "h < 24 \<and> (\<exists>w. s = w @ r \<and> (length w = 1 \<or> length w = 2) \<and> read_number u w = Some h)"
proof -
  from assms consider
    (two) a b y where "s = a # b # r" "decimal_value u b = Some y" "h = 10 * digit_val a + y"
      "(a = ord CHR ''2'' \<and> b \<in> set (lit ''0123'')) \<or> a \<in> set (lit ''01'')"
  | (one) a where "s = a # r" "decimal_value u a = Some h"
    by (auto simp: match_H_def split: list.splits if_splits option.splits) metis+
  then show ?thesis
  proof cases
    case two
    from two(4) have a: "is_digit a" by (auto simp: is_digit_def ord_def lit_def)
    from two(4) consider "a = 50" "b \<in> {48, 49, 50, 51}" | "a = 48 \<or> a = 49"
      by (auto simp: ord_def lit_def)
    then have "h < 24"
    proof cases
      case 1
      then have "is_digit b" by (auto simp: is_digit_def)
      with two(2) have "y = digit_val b" by (simp add: decimal_of_digit)
      with 1 two(3) show ?thesis by (auto simp: digit_val_def)
    next
      case 2
      with two(3) decimal_value_less [OF two(2)] show ?thesis by (auto simp: digit_val_def)
    qed
    moreover have "read_number u [a, b] = Some h"
      by (simp add: read_number_def decimal_of_digit [OF a] two(2,3))
    moreover have "s = [a, b] @ r" by (simp add: two(1))
    ultimately show ?thesis by (metis length_Cons list.size(3) One_nat_def Suc_1)
  next
    case one
    from decimal_value_less [OF one(2)] have "h < 24" by simp
    moreover have "read_number u [a] = Some h" by (simp add: read_number_def one(2))
    moreover have "s = [a] @ r" by (simp add: one(1))
    ultimately show ?thesis by (metis length_Cons list.size(3) One_nat_def)
  qed
qed

lemma match_M_sound:
  assumes "(m, r) \<in> set (match_M u s)"
  shows "m < 60 \<and> (\<exists>w. s = w @ r \<and> (length w = 1 \<or> length w = 2) \<and> read_number u w = Some m)"
proof -
  from assms consider
    (two) a b y where "s = a # b # r" "decimal_value u b = Some y" "m = 10 * digit_val a + y"
      "a \<in> set (lit ''012345'')"
  | (one) a where "s = a # r" "decimal_value u a = Some m"
    by (auto simp: match_M_def split: list.splits if_splits option.splits) metis+
  then show ?thesis
  proof cases
    case two
    from two(4) have a: "is_digit a" "digit_val a < 6"
      by (auto simp: is_digit_def digit_val_def lit_def)
    with two(3) decimal_value_less [OF two(2)] have "m < 60" by simp
    moreover have "read_number u [a, b] = Some m"
      by (simp add: read_number_def decimal_of_digit [OF a(1)] two(2,3))
    moreover have "s = [a, b] @ r" by (simp add: two(1))
    ultimately show ?thesis by (metis length_Cons list.size(3) One_nat_def Suc_1)
  next
    case one
    from decimal_value_less [OF one(2)] have "m < 60" by simp
    moreover have "read_number u [a] = Some m" by (simp add: read_number_def one(2))
    moreover have "s = [a] @ r" by (simp add: one(1))
    ultimately show ?thesis by (metis length_Cons list.size(3) One_nat_def)
  qed
qed

lemma time_reading_split:
  assumes "read_number u wh = Some h" and "read_number u wm = Some m"
  shows "time_reading u (wh @ lit '':'' @ wm) (length wh) = Some (h, m)"
  using assms by (simp add: time_reading_def lit_def ord_def)

lemma strptime_sound:
  assumes "strptime_HM u s = Inr (h, m)"
  shows "is_time_text u s"
proof -
  let ?cands = "concat (map (\<lambda>(h, r1). concat (map (\<lambda>r2. map (\<lambda>(m, r3). (h, m, r3)) (match_M u r2))
                                              (match_colon r1))) (match_H u s))"
  from assms obtain rest where c: "?cands = (h, m, []) # rest"
    by (auto simp: strptime_HM_def split: list.splits if_splits)
  have "(h, m, []) \<in> set ?cands"
    by (subst c) simp
  then obtain r1 r2 where H: "(h, r1) \<in> set (match_H u s)" and C: "r2 \<in> set (match_colon r1)"
    and M: "(m, []) \<in> set (match_M u r2)"
    by auto
  from C have r1: "r1 = lit '':'' @ r2"
    by (auto simp: match_colon_def lit_def ord_def split: list.splits if_splits)
  from H obtain wh where wh: "h < 24" "s = wh @ r1" "length wh = 1 \<or> length wh = 2"
    "read_number u wh = Some h"
    using match_H_sound by blast
  from M obtain wm where wm: "m < 60" "r2 = wm @ []" "read_number u wm = Some m"
    using match_M_sound by blast
  from wh(2) wm(2) r1 have s: "s = wh @ lit '':'' @ wm" by simp
  from time_reading_split [OF wh(4) wm(3)] s
  have "time_reading u s (length wh) = Some (h, m)" by simp
  with wh(1,3) wm(1) show ?thesis
    by (auto simp: is_time_text_def)
qed

lemma not_a_time_unchanged:
  assumes "\<not> is_time_text u s"
  shows "format_time u (JStr s) = JStr s"
proof (cases "strptime_HM u s")
  case (Inl e)
  then show ?thesis by simp
next
  case (Inr t)
  then obtain h m where "strptime_HM u s = Inr (h, m)" by (cases t) auto
  with assms strptime_sound show ?thesis by blast
qed

text \<open>Outside the book search, a fetch that gave \<open>None\<close> leaves the enrichment empty.\<close>

lemma no_data_leaves_enrichment_empty:
  assumes "\<And>endpoint ps. fetch_library_data env endpoint ps = JNull"
  shows "snd (computer_availability u env campus_id) = Inr []"
    and "snd (seat_availability u env campus_id) = Inr []"
    and "snd (announcements u env) = Inr []"
    and "snd (library_hours u env campus_id) = Inr []"
    and "snd (study_rooms u env) = Inr []"
    and "snd (general_rooms u env campus_id) = Inr []"
  by (simp_all add: assms computer_availability_def seat_availability_def announcements_def
      library_hours_def study_rooms_def general_rooms_def)

lemma search_from_length: "search_from u prev s = Some w \<Longrightarrow> length w = 7"
  by (induction s arbitrary: prev) (auto simp: pattern_at_def split: if_splits)

lemma book_params_eq:
  "book_params u msg =
     (lit ''q'', JStr msg)
     # (case module_search u msg of None \<Rightarrow> [] | Some c \<Rightarrow> [(lit ''module'', JStr c)])"
proof (cases "module_search u msg")
  case None
  then show ?thesis by (simp add: book_params_def)
next
  case (Some c)
  then have "length c = 7" unfolding module_search_def by (rule search_from_length)
  then have "c \<noteq> []" by auto
  with Some show ?thesis by (simp add: book_params_def)
qed

lemma book_first:
  assumes "contains (lit ''book'') (lower u msg)"
  shows "library_router u env msg = book_search u env msg"
  using assms by (simp add: library_router_def dispatch_def gate_open)

section \<open>Properties\<close>

subsection \<open>Blank messages\<close>

text \<open>
  C1. A request whose message is empty or only whitespace raises
  \<open>HTTPException(400, "Empty message")\<close> inside the outer \<open>try\<close>, before any outbound call;
  the handler of that \<open>try\<close> catches it, so the endpoint answers with status 200 and the
  text about technical difficulties, and not with the 400 response the exception stands
  for.
\<close>

theorem blank_message_answered_200:
  assumes "strip u (message request) = []"
  shows "result (chat_body u env request) = Inl (HTTPException 400 (lit ''Empty message''))
         \<and> chat_endpoint u env request =
             \<lparr>library_calls = [], completion_calls = [],
              result = reply difficulties_text\<rparr>
         \<and> result (chat_endpoint u env request) =
             \<lparr>status_code = 200,
              body = JDict [(lit ''reply'',
                JStr (lit ''Apologies, I'm experiencing technical difficulties. ''
                      @ lit ''Please contact help@ump.ac.za for immediate support.''))]\<rparr>
         \<and> status_code (result (chat_endpoint u env request)) = 200
         \<and> result (chat_endpoint u env request)
             \<noteq> framework_response (HTTPException 400 (lit ''Empty message''))"
  using assms
  by (simp add: chat_endpoint_def chat_body_def is_Exception_def reply_def
      difficulties_text_def)

theorem blank_message_answered_200_witness:
  "strip sample_ucd (message \<lparr>message = lit ''   '', user_id = None, context' = None\<rparr>) = []
   \<and> chat_endpoint sample_ucd example_env
        \<lparr>message = lit ''   '', user_id = None, context' = None\<rparr> =
       \<lparr>library_calls = [], completion_calls = [], result = reply difficulties_text\<rparr>
   \<and> status_code
        (result (chat_endpoint sample_ucd example_env
                   \<lparr>message = lit ''   '', user_id = None, context' = None\<rparr>))
       = 200"
proof -
  have b: "strip sample_ucd
             (message \<lparr>message = lit ''   '', user_id = None, context' = None\<rparr>) = []"
    by code_simp
  from blank_message_answered_200 [OF b, of example_env] b show ?thesis
    by blast
qed

subsection \<open>Failures of the library data service\<close>

text \<open>
  C2. With the library data service unreachable, a question about books makes the primary
  call and the fallback call, both of which give \<open>None\<close>; the fallback's result is then
  asked for its \<open>get\<close> method, which \<open>None\<close> does not have. The request ends there: the
  completion service is never called and the user is sent the text about technical
  difficulties.
\<close>

theorem book_question_with_service_down:
  "chat_endpoint u
     \<lparr>prompt_content = prompt, library_service = (\<lambda>endpoint ps. ConnectionError),
      completion_service = completion\<rparr>
     \<lparr>message = lit ''Do you have a book on databases?'', user_id = uid, context' = ctx\<rparr>
   = \<lparr>library_calls =
        [(lit ''books'', Some [(lit ''q'', JStr (lit ''Do you have a book on databases?''))]),
         (lit ''books'', Some [(lit ''page'', JInt 1), (lit ''per_page'', JInt 5)])],
      completion_calls = [],
      result =
        \<lparr>status_code = 200,
         body = JDict [(lit ''reply'',
           JStr (lit ''Apologies, I'm experiencing technical difficulties. ''
                 @ lit ''Please contact help@ump.ac.za for immediate support.''))]\<rparr>\<rparr>"
  by code_simp

subsection \<open>The fallback of the book search\<close>

text \<open>
  C3. The primary book query answers with no items, and the fallback call (page 1, five
  per page) is made once. When the fallback answers with the empty list, or fails, its
  result is read with \<open>get\<close>, which neither a list nor \<open>None\<close> has: no enrichment text is
  produced at all, and the request ends with the text about technical difficulties and
  without a completion call.
\<close>

theorem empty_fallback_ends_request:
  "chat_endpoint u
     \<lparr>prompt_content = prompt,
      library_service = (\<lambda>endpoint ps.
        if ps = Some [(lit ''page'', JInt 1), (lit ''per_page'', JInt 5)]
        then Response 200 (Some (JList []))
        else Response 200 (Some (JDict [(lit ''items'', JList [])]))),
      completion_service = completion\<rparr>
     \<lparr>message = lit ''Any book about zoology?'', user_id = uid, context' = ctx\<rparr>
   = \<lparr>library_calls =
        [(lit ''books'', Some [(lit ''q'', JStr (lit ''Any book about zoology?''))]),
         (lit ''books'', Some [(lit ''page'', JInt 1), (lit ''per_page'', JInt 5)])],
      completion_calls = [],
      result =
        \<lparr>status_code = 200,
         body = JDict [(lit ''reply'',
           JStr (lit ''Apologies, I'm experiencing technical difficulties. ''
                 @ lit ''Please contact help@ump.ac.za for immediate support.''))]\<rparr>\<rparr>
   \<and> chat_endpoint u
     \<lparr>prompt_content = prompt,
      library_service = (\<lambda>endpoint ps.
        if ps = Some [(lit ''page'', JInt 1), (lit ''per_page'', JInt 5)]
        then Timeout
        else Response 200 (Some (JDict [(lit ''items'', JList [])]))),
      completion_service = completion\<rparr>
     \<lparr>message = lit ''Any book about zoology?'', user_id = uid, context' = ctx\<rparr>
   = \<lparr>library_calls =
        [(lit ''books'', Some [(lit ''q'', JStr (lit ''Any book about zoology?''))]),
         (lit ''books'', Some [(lit ''page'', JInt 1), (lit ''per_page'', JInt 5)])],
      completion_calls = [],
      result =
        \<lparr>status_code = 200,
         body = JDict [(lit ''reply'',
           JStr (lit ''Apologies, I'm experiencing technical difficulties. ''
                 @ lit ''Please contact help@ump.ac.za for immediate support.''))]\<rparr>\<rparr>"
  by code_simp

text \<open>Only a dictionary from the fallback call reaches the request for clarification.\<close>

lemma dictionary_without_items_clarifies:
  "library_router u
     \<lparr>prompt_content = prompt,
      library_service =
        (\<lambda>endpoint ps. Response 200 (Some (JDict [(lit ''items'', JList [])]))),
      completion_service = completion\<rparr>
     (lit ''Any book about zoology?'')
   = ([(lit ''books'', Some [(lit ''q'', JStr (lit ''Any book about zoology?''))]),
       (lit ''books'', Some [(lit ''page'', JInt 1), (lit ''per_page'', JInt 5)])],
      Inr (lit ''I'' @ [8217] @ lit ''m sorry, I couldn'' @ [8217]
           @ lit ''t find any books. Could you provide a title, author, or module code?''))"
  by code_simp

subsection \<open>The order of the sub-intents\<close>

text \<open>
  C4. The chain is tried in order and its first condition that holds decides: a message
  whose lowercase form has \<open>computer\<close> and has neither \<open>seat\<close> nor \<open>book\<close> is handled
  by the first computer branch, which makes exactly the call to
  \<open>libraries/{campus_id}/computers\<close>, whatever else the message says (\<open>room\<close>
  included).
\<close>

theorem computer_before_room:
  assumes "contains (lit ''computer'') (lower u msg)"
    and "\<not> contains (lit ''seat'') (lower u msg)"
    and "\<not> contains (lit ''book'') (lower u msg)"
  shows "library_router u env msg = computer_availability u env (get_campus_id u msg)
         \<and> fst (library_router u env msg) =
             [(lit ''libraries/'' @ str_int (get_campus_id u msg) @ lit ''/computers'', None)]"
proof -
  from assms(1,3)
  have "library_router u env msg = computer_availability u env (get_campus_id u msg)"
    by (rule computer_first)
  then show ?thesis
    by (simp add: computer_availability_def campus_endpoint_def Let_def lit_def)
qed

theorem computer_before_room_witness:
  "contains (lit ''computer'') (lower sample_ucd (lit ''Is a computer free in the study room?''))
   \<and> contains (lit ''room'') (lower sample_ucd (lit ''Is a computer free in the study room?''))
   \<and> library_router sample_ucd example_env (lit ''Is a computer free in the study room?'')
       = ([(lit ''libraries/1/computers'', None)],
          Inr (lit ''Available Computers:'' @ [10] @ lit ''PC-01 (16GB) '' @ [8212]
               @ lit '' Free''))"
proof -
  let ?m = "lit ''Is a computer free in the study room?''"
  have a: "contains (lit ''computer'') (lower sample_ucd ?m)"
    by code_simp
  have b: "\<not> contains (lit ''seat'') (lower sample_ucd ?m)"
    by code_simp
  have c: "\<not> contains (lit ''book'') (lower sample_ucd ?m)"
    by code_simp
  have d: "contains (lit ''room'') (lower sample_ucd ?m)"
    by code_simp
  have e: "computer_availability sample_ucd example_env (get_campus_id sample_ucd ?m)
           = ([(lit ''libraries/1/computers'', None)],
              Inr (lit ''Available Computers:'' @ [10] @ lit ''PC-01 (16GB) '' @ [8212]
                   @ lit '' Free''))"
    by code_simp
  from computer_before_room [OF a b c, of example_env]
  have "library_router sample_ucd example_env ?m
        = computer_availability sample_ucd example_env (get_campus_id sample_ucd ?m)"
    by (rule conjunct1)
  with a d e show ?thesis by (simp only: simp_thms)
qed

subsection \<open>The conversation\<close>

text \<open>
  C5. Whenever a conversation is sent to the completion service, its messages are the
  system prompt, then the retained context (the last three entries of the request's
  context, in their order: all of a context of up to three, and the end piece of length
  three of a longer one), then one message with role \<open>system\<close> holding the enrichment text
  when that text is not empty, then the user's message, with role \<open>user\<close>, as the last
  element.
\<close>

theorem conversation_sent_to_completion:
  assumes "p \<in> set (completion_calls (chat_endpoint u env request))"
  shows "\<exists>calls library_context.
           library_router u env (message request) = (calls, Inr library_context)
           \<and> messages p =
               [JDict [(lit ''role'', JStr (lit ''system'')),
                       (lit ''content'', JStr (prompt_content env))]]
               @ retained_context request
               @ (if library_context = [] then []
                  else [JDict [(lit ''role'', JStr (lit ''system'')),
                               (lit ''content'', JStr library_context)]])
               @ [JDict [(lit ''role'', JStr (lit ''user'')),
                         (lit ''content'', JStr (message request))]]
           \<and> length (retained_context request)
               = min 3 (length (case context' request of None \<Rightarrow> [] | Some c \<Rightarrow> c))
           \<and> suffix (retained_context request)
                (case context' request of None \<Rightarrow> [] | Some c \<Rightarrow> c)"
proof -
  from assms have nb: "strip u (message request) \<noteq> []"
    by (auto simp: chat_endpoint_def chat_body_def Let_def)
  obtain calls r where r: "library_router u env (message request) = (calls, r)"
    by (cases "library_router u env (message request)")
  from assms nb r obtain lc where lc: "r = Inr lc"
    by (cases r) (auto simp: chat_endpoint_def chat_body_def Let_def)
  from assms nb r lc
  have p: "p = make_payload (final_messages (initial_messages env request) lc (message request))"
    by (auto simp: chat_endpoint_def chat_body_def Let_def)
  have m: "messages p =
               [JDict [(lit ''role'', JStr (lit ''system'')),
                       (lit ''content'', JStr (prompt_content env))]]
               @ retained_context request
               @ (if lc = [] then []
                  else [JDict [(lit ''role'', JStr (lit ''system'')),
                               (lit ''content'', JStr lc)]])
               @ [JDict [(lit ''role'', JStr (lit ''user'')),
                         (lit ''content'', JStr (message request))]]"
    by (simp add: p make_payload_def final_messages_def initial_messages_eq
        SCCS_SYSTEM_PROMPT_def system_message_def user_message_of_def)
  have l: "length (retained_context request)
               = min 3 (length (case context' request of None \<Rightarrow> [] | Some c \<Rightarrow> c))"
    by (simp add: retained_context_def last3_length split: option.splits)
  have s: "suffix (retained_context request)
                (case context' request of None \<Rightarrow> [] | Some c \<Rightarrow> c)"
    by (simp add: retained_context_def last3_suffix split: option.splits)
  from r lc m l s show ?thesis by blast
qed

theorem conversation_sent_to_completion_witness:
  "messages (hd (completion_calls (chat_endpoint sample_ucd example_env hours_request)))
     = [JDict [(lit ''role'', JStr (lit ''system'')),
               (lit ''content'', JStr (lit ''You are the SCCS assistant.''))],
        JDict [(lit ''role'', JStr (lit ''assistant'')), (lit ''content'', JStr (lit ''Hello!''))],
        JDict [(lit ''role'', JStr (lit ''user'')),
               (lit ''content'', JStr (lit ''Where is the library?''))],
        JDict [(lit ''role'', JStr (lit ''assistant'')),
               (lit ''content'', JStr (lit ''Building 15.''))],
        JDict [(lit ''role'', JStr (lit ''system'')),
               (lit ''content'',
                JStr (lit ''Library Hours:'' @ [10] @ lit ''Monday: 08:00 AM to 08:00 PM''))],
        JDict [(lit ''role'', JStr (lit ''user'')),
               (lit ''content'', JStr (lit ''What time does the library open?''))]]"
proof -
  let ?p = "hd (completion_calls (chat_endpoint sample_ucd example_env hours_request))"
  have m: "?p \<in> set (completion_calls (chat_endpoint sample_ucd example_env hours_request))"
    by code_simp
  from conversation_sent_to_completion [OF m]
  obtain calls lc
    where r: "library_router sample_ucd example_env (message hours_request) = (calls, Inr lc)"
    and ms: "messages ?p =
               [JDict [(lit ''role'', JStr (lit ''system'')),
                       (lit ''content'', JStr (prompt_content example_env))]]
               @ retained_context hours_request
               @ (if lc = [] then []
                  else [JDict [(lit ''role'', JStr (lit ''system'')),
                               (lit ''content'', JStr lc)]])
               @ [JDict [(lit ''role'', JStr (lit ''user'')),
                         (lit ''content'', JStr (message hours_request))]]"
    by blast
  have r': "library_router sample_ucd example_env (message hours_request)
            = ([(lit ''libraries/1/hours'', None)],
               Inr (lit ''Library Hours:'' @ [10] @ lit ''Monday: 08:00 AM to 08:00 PM''))"
    by code_simp
  from r r' have lc: "lc = lit ''Library Hours:'' @ [10] @ lit ''Monday: 08:00 AM to 08:00 PM''"
    by simp
  have ne: "lit ''Library Hours:'' @ [10] @ lit ''Monday: 08:00 AM to 08:00 PM'' \<noteq> []"
    by (simp add: lit_def)
  have rc: "retained_context hours_request
            = [JDict [(lit ''role'', JStr (lit ''assistant'')),
                      (lit ''content'', JStr (lit ''Hello!''))],
               JDict [(lit ''role'', JStr (lit ''user'')),
                      (lit ''content'', JStr (lit ''Where is the library?''))],
               JDict [(lit ''role'', JStr (lit ''assistant'')),
                      (lit ''content'', JStr (lit ''Building 15.''))]]"
    by code_simp
  have um: "message hours_request = lit ''What time does the library open?''"
    by code_simp
  have pc: "prompt_content example_env = lit ''You are the SCCS assistant.''"
    by code_simp
  show ?thesis
    unfolding ms lc rc um pc using ne by simp
qed

subsection \<open>The time formatter\<close>

text \<open>
  C6, as amended. A time written \<open>HH:MM\<close> with an hour below 24 and a minute below 60 is
  rendered on the 12-hour clock with \<open>AM\<close> or \<open>PM\<close> after it. A string that is not a time
  text (an hour below 24 and a minute below 60, each written with one or two decimal
  digits, with a colon between them) comes back unchanged; the formatter has no
  exceptional result. The record of Monday with opening 08:00 and closing 20:00 gives the
  line \<open>Monday: 08:00 AM to 08:00 PM\<close>.
\<close>

theorem format_time_twelve_hour_clock:
  "(h < 24 \<and> m < 60 \<longrightarrow> format_time u (JStr (hhmm h m)) = JStr (twelve_hour h m))
   \<and> (\<not> is_time_text u s \<longrightarrow> format_time u (JStr s) = JStr s)
   \<and> hours_line u
        (JDict [(lit ''weekday'', JStr (lit ''Monday'')),
                (lit ''open_time'', JStr (lit ''08:00'')),
                (lit ''close_time'', JStr (lit ''20:00''))])
       = Inr (lit ''Monday: 08:00 AM to 08:00 PM'')"
proof (intro conjI impI)
  assume "h < 24 \<and> m < 60"
  then show "format_time u (JStr (hhmm h m)) = JStr (twelve_hour h m)"
    using format_time_hhmm by blast
next
  assume "\<not> is_time_text u s"
  then show "format_time u (JStr s) = JStr s"
    by (rule not_a_time_unchanged)
next
  show "hours_line u
        (JDict [(lit ''weekday'', JStr (lit ''Monday'')),
                (lit ''open_time'', JStr (lit ''08:00'')),
                (lit ''close_time'', JStr (lit ''20:00''))])
       = Inr (lit ''Monday: 08:00 AM to 08:00 PM'')"
    by code_simp
qed

theorem format_time_twelve_hour_clock_witness:
  "format_time sample_ucd (JStr (lit ''20:00'')) = JStr (lit ''08:00 PM'')
   \<and> format_time sample_ucd (JStr (lit ''24:00'')) = JStr (lit ''24:00'')
   \<and> library_router sample_ucd example_env (lit ''What time does the library open?'')
       = ([(lit ''libraries/1/hours'', None)],
          Inr (lit ''Library Hours:'' @ [10] @ lit ''Monday: 08:00 AM to 08:00 PM''))"
proof -
  have r: "(20::nat) < 24 \<and> (0::nat) < 60" by simp
  have a: "hhmm 20 0 = lit ''20:00''" by code_simp
  have b: "twelve_hour 20 0 = lit ''08:00 PM''" by code_simp
  have c: "\<not> is_time_text sample_ucd (lit ''24:00'')" by code_simp
  have d: "library_router sample_ucd example_env (lit ''What time does the library open?'')
       = ([(lit ''libraries/1/hours'', None)],
          Inr (lit ''Library Hours:'' @ [10] @ lit ''Monday: 08:00 AM to 08:00 PM''))"
    by code_simp
  from format_time_twelve_hour_clock [of 20 0 sample_ucd "lit ''24:00''"] r c
  have "format_time sample_ucd (JStr (hhmm 20 0)) = JStr (twelve_hour 20 0)"
    and "format_time sample_ucd (JStr (lit ''24:00'')) = JStr (lit ''24:00'')"
    by blast+
  with d show ?thesis unfolding a b by blast
qed

text \<open>
  C6, as stated, fails: \<open>8:5\<close> is not of the form \<open>HH:MM\<close>, and it does not come back
  unchanged.
\<close>

theorem lenient_time_is_rewritten:
  "format_time sample_ucd (JStr (lit ''8:5'')) = JStr (lit ''08:05 AM'')
   \<and> format_time sample_ucd (JStr (lit ''8:5'')) \<noteq> JStr (lit ''8:5'')"
  by code_simp

subsection \<open>The module code\<close>

text \<open>
  C7, as amended. The search runs over the message as it was sent, not over its lowercase
  form, for the leftmost place where three capital letters and four digits stand between
  two word boundaries. A message in which \<open>INF1511\<close> has no word character directly
  before or after it, and which has no such code further left, extracts exactly
  \<open>INF1511\<close>. A message extracts nothing exactly when it has no module code delimited in
  this way. The first call of a book question has the message as \<open>q\<close> and, when a code
  was extracted, the code as the separate parameter \<open>module\<close>.
\<close>

theorem module_code_extraction:
  "(module_search u pre = None \<and> \<not> word_at_end u pre \<and> \<not> word_at_start u post
      \<longrightarrow> module_search u (pre @ lit ''INF1511'' @ post) = Some (lit ''INF1511''))
   \<and> (module_search u msg = None \<longleftrightarrow>
        \<not> (\<exists>before w after. msg = before @ w @ after \<and> is_module_code w
              \<and> \<not> word_at_end u before \<and> \<not> word_at_start u after))
   \<and> (contains (lit ''book'') (lower u msg)
      \<longrightarrow> hd (fst (library_router u env msg))
          = (lit ''books'',
             Some ((lit ''q'', JStr msg)
                   # (case module_search u msg of
                        None \<Rightarrow> []
                      | Some c \<Rightarrow> [(lit ''module'', JStr c)]))))"
proof (intro conjI impI)
  assume h: "module_search u pre = None \<and> \<not> word_at_end u pre \<and> \<not> word_at_start u post"
  have code: "is_module_code (lit ''INF1511'')" by code_simp
  from h have "\<not> (case prev_of None pre of None \<Rightarrow> False | Some c \<Rightarrow> is_word u c)"
    by (simp add: word_at_end_prev)
  with code h have "pattern_at u (prev_of None pre) (lit ''INF1511'' @ post)"
    unfolding pattern_at_iff by blast
  with h have "module_search u (pre @ lit ''INF1511'' @ post)
               = Some (take 7 (lit ''INF1511'' @ post))"
    by (intro module_search_after) simp_all
  then show "module_search u (pre @ lit ''INF1511'' @ post) = Some (lit ''INF1511'')"
    by (simp add: lit_def)
next
  show "module_search u msg = None \<longleftrightarrow>
        \<not> (\<exists>before w after. msg = before @ w @ after \<and> is_module_code w
              \<and> \<not> word_at_end u before \<and> \<not> word_at_start u after)"
    by (rule module_search_None_iff)
next
  assume "contains (lit ''book'') (lower u msg)"
  then have "library_router u env msg = book_search u env msg"
    by (rule book_first)
  then show "hd (fst (library_router u env msg))
          = (lit ''books'',
             Some ((lit ''q'', JStr msg)
                   # (case module_search u msg of
                        None \<Rightarrow> []
                      | Some c \<Rightarrow> [(lit ''module'', JStr c)])))"
    by (simp add: book_search_def Let_def book_params_eq)
qed

theorem module_code_extraction_witness:
  "module_search sample_ucd (lit ''Which book covers INF1511?'') = Some (lit ''INF1511'')
   \<and> fst (library_router sample_ucd example_env (lit ''Which book covers INF1511?''))
       = [(lit ''books'',
           Some [(lit ''q'', JStr (lit ''Which book covers INF1511?'')),
                 (lit ''module'', JStr (lit ''INF1511''))])]
   \<and> fst (library_router sample_ucd example_env (lit ''which book covers inf1511?''))
       = [(lit ''books'', Some [(lit ''q'', JStr (lit ''which book covers inf1511?''))])]"
proof -
  have a: "module_search sample_ucd (lit ''Which book covers '') = None
           \<and> \<not> word_at_end sample_ucd (lit ''Which book covers '')
           \<and> \<not> word_at_start sample_ucd (lit ''?'')"
    by code_simp
  have e: "lit ''Which book covers '' @ lit ''INF1511'' @ lit ''?''
           = lit ''Which book covers INF1511?''"
    by (simp add: lit_def)
  from module_code_extraction [of sample_ucd "lit ''Which book covers ''" "lit ''?''"] a
  have "module_search sample_ucd (lit ''Which book covers '' @ lit ''INF1511'' @ lit ''?'')
        = Some (lit ''INF1511'')"
    by blast
  then have s: "module_search sample_ucd (lit ''Which book covers INF1511?'')
                = Some (lit ''INF1511'')"
    unfolding e .
  have r1: "fst (library_router sample_ucd example_env (lit ''Which book covers INF1511?''))
       = [(lit ''books'',
           Some [(lit ''q'', JStr (lit ''Which book covers INF1511?'')),
                 (lit ''module'', JStr (lit ''INF1511''))])]"
    by code_simp
  have r2: "fst (library_router sample_ucd example_env (lit ''which book covers inf1511?''))
       = [(lit ''books'', Some [(lit ''q'', JStr (lit ''which book covers inf1511?''))])]"
    by code_simp
  from s r1 r2 show ?thesis by blast
qed

text \<open>
  C7, as stated, fails: \<open>INF1511\<close> directly after a letter is not found, and where
  another code stands further left, that one is extracted.
\<close>

theorem module_code_contained_but_not_extracted:
  "contains (lit ''INF1511'') (lit ''Is XINF1511 a book?'')
   \<and> module_search sample_ucd (lit ''Is XINF1511 a book?'') = None
   \<and> contains (lit ''INF1511'') (lit ''A book for ABC1234 or INF1511'')
   \<and> module_search sample_ucd (lit ''A book for ABC1234 or INF1511'') = Some (lit ''ABC1234'')"
  by code_simp

text \<open>After a letter beyond ASCII there is no word boundary either.\<close>

lemma no_boundary_after_accented_letter:
  "module_search sample_ucd (lit ''book '' @ [233] @ lit ''INF1511'') = None"
  by code_simp

subsection \<open>Failures of the completion service\<close>




subsection \<open>The gate\<close>

text \<open>
  C9. A message whose lowercase form has \<open>news\<close>, \<open>open\<close>, \<open>close\<close> or
  \<open>group study\<close> but none of the nine gate keywords makes no call to the library data
  service and leaves the enrichment empty, although the chain behind the gate would have
  chosen the announcements, the hours or the study rooms for it.
\<close>

theorem gate_before_triggers:
  assumes "contains (lit ''news'') (lower u msg) \<or> contains (lit ''open'') (lower u msg)
           \<or> contains (lit ''close'') (lower u msg)
           \<or> contains (lit ''group study'') (lower u msg)"
    and "list_all (\<lambda>keyword. \<not> contains keyword (lower u msg)) gate_keywords"
  shows "library_router u env msg = ([], Inr [])
         \<and> dispatch u env msg (lower u msg) campus_id =
             (if contains (lit ''news'') (lower u msg) then announcements u env
              else if contains (lit ''open'') (lower u msg) \<or> contains (lit ''close'') (lower u msg)
                then library_hours u env campus_id
              else study_rooms u env)"
proof -
  from assms(2)
  have g: "\<not> contains (lit ''book'') (lower u msg)" "\<not> contains (lit ''computer'') (lower u msg)"
    "\<not> contains (lit ''seat'') (lower u msg)" "\<not> contains (lit ''announcement'') (lower u msg)"
    "\<not> contains (lit ''hour'') (lower u msg)" "\<not> contains (lit ''study room'') (lower u msg)"
    "\<not> contains (lit ''room'') (lower u msg)" "\<not> contains (lit ''venue'') (lower u msg)"
    "\<not> contains (lit ''library'') (lower u msg)"
    by (simp_all add: gate_keywords_def)
  then have t: "\<not> contains (lit ''textbook'') (lower u msg)"
    using textbook_has_book by blast
  have "library_router u env msg = ([], Inr [])"
    using g by (simp add: library_router_def gate_open)
  moreover have "dispatch u env msg (lower u msg) campus_id =
             (if contains (lit ''news'') (lower u msg) then announcements u env
              else if contains (lit ''open'') (lower u msg) \<or> contains (lit ''close'') (lower u msg)
                then library_hours u env campus_id
              else study_rooms u env)"
    using g t assms(1) by (auto simp add: dispatch_def)
  ultimately show ?thesis by simp
qed

theorem gate_before_triggers_witness:
  "contains (lit ''open'') (lower sample_ucd (lit ''When do you open on Sunday?''))
   \<and> library_router sample_ucd example_env (lit ''When do you open on Sunday?'') = ([], Inr [])
   \<and> dispatch sample_ucd example_env (lit ''When do you open on Sunday?'')
         (lower sample_ucd (lit ''When do you open on Sunday?'')) 1
       = library_hours sample_ucd example_env 1"
proof -
  let ?m = "lit ''When do you open on Sunday?''"
  have a: "contains (lit ''open'') (lower sample_ucd ?m)"
    by code_simp
  then have a': "contains (lit ''news'') (lower sample_ucd ?m)
           \<or> contains (lit ''open'') (lower sample_ucd ?m)
           \<or> contains (lit ''close'') (lower sample_ucd ?m)
           \<or> contains (lit ''group study'') (lower sample_ucd ?m)"
    by (simp only: simp_thms)
  have b: "list_all (\<lambda>keyword. \<not> contains keyword (lower sample_ucd ?m)) gate_keywords"
    by code_simp
  have n: "\<not> contains (lit ''news'') (lower sample_ucd ?m)"
    by code_simp
  from gate_before_triggers [OF a' b, of example_env 1] a n show ?thesis
    by (simp only: simp_thms if_True if_False)
qed

subsection \<open>Free seats\<close>



end
